theory Spec2Isabelle
  imports Main
begin

section \<open>Values, errors and model metadata\<close>

text \<open>
  Go's \<^verbatim>\<open>any\<close> values that are bound as query arguments.  \<^verbatim>\<open>VList\<close> is a slice passed as
  one value (what \<^verbatim>\<open>Column.In\<close> binds).
\<close>

datatype val = VNil | VInt int | VStr string | VBool bool | VList "val list"

text \<open>
  The errors of \<^verbatim>\<open>internal/errs\<close>, the error of \<^verbatim>\<open>Deleter.buildExpression\<close>
  (\<^verbatim>\<open>fmt.Errorf("unsupported expression type: %T", e)\<close>), errors handed back by the
  database driver, and run-time panics (index out of range).
\<close>

datatype error =
    ErrPointerOnly
  | ErrNoRows
  | ErrNoUpdatedColumns
  | ErrInsertZeroRow
  | ErrUnknownField string
  | ErrUnknownColumn string
  | ErrUnsupportedAssignableType
  | ErrUnsupportedExpressionType
  | ErrUnsupportedSelectable
  | ErrInvalidTagContent string
  | ErrDeleterUnsupportedExpression
  | ErrDriver string
  | Panic

text \<open>\<^verbatim>\<open>model.Field\<close> and \<^verbatim>\<open>model.Model\<close> (model/model.go).  A \<^verbatim>\<open>reflect.Type\<close> is
  represented by its name.\<close>

record field =
  ColName :: string
  GoName :: string
  Type :: string
  Index :: nat
  Offset :: nat

record model =
  TableName :: string
  Fields :: "field list"
  FieldMap :: "string \<rightharpoonup> field"
  ColumnMap :: "string \<rightharpoonup> field"

text \<open>\<^verbatim>\<open>Query\<close> (types.go).  A Go slice that may be \<^verbatim>\<open>nil\<close> is an optional list.\<close>

record query =
  SQL :: string
  Args :: "val list option"

text \<open>The entity of a \<^verbatim>\<open>Table\<close> and the type parameter \<^verbatim>\<open>T\<close> of a statement matter
  only through their reflected type, which is represented by its name.\<close>

type_synonym entity = string

section \<open>The expression algebra\<close>

text \<open>
  \<^verbatim>\<open>type op string\<close> with its constants (predicate.go).
\<close>

type_synonym op = string

definition opEQ :: op where "opEQ = ''=''"
definition opLT :: op where "opLT = ''<''"
definition opGT :: op where "opGT = ''>''"
definition opIN :: op where "opIN = ''IN''"
definition opExist :: op where "opExist = ''EXIST''"
definition opAND :: op where "opAND = ''AND''"
definition opOR :: op where "opOR = ''OR''"
definition opNOT :: op where "opNOT = ''NOT''"
definition opAdd :: op where "opAdd = ''+''"
definition opMulti :: op where "opMulti = ''*''"

text \<open>\<^verbatim>\<open>RawExpr\<close> (expression.go) and \<^verbatim>\<open>Table\<close> (table.go) hold no expression.\<close>

datatype rawExpr = RawExpr (raw: string) (raw_args: "val list")

datatype table = Table (entity: entity) (t_alias: string)

text \<open>
  The struct types that hold expressions or table references, and the interfaces
  \<^verbatim>\<open>Expression\<close>, \<^verbatim>\<open>TableReference\<close> and \<^verbatim>\<open>Selectable\<close> as sums of the types that implement
  them.  \<^verbatim>\<open>ExprNil\<close> and \<^verbatim>\<open>TNil\<close> are the \<^verbatim>\<open>nil\<close> interface values.  \<^verbatim>\<open>MathExpr\<close> and
  \<^verbatim>\<open>Predicate\<close> are declared as \<^verbatim>\<open>type MathExpr binaryExpr\<close>, \<^verbatim>\<open>type Predicate binaryExpr\<close>:
  the same struct under three dynamic types, hence three constructors of \<^verbatim>\<open>expr\<close> over
  one \<^verbatim>\<open>binaryExpr\<close>, and the conversion \<^verbatim>\<open>binaryExpr(exp)\<close> is the identity on it.

  The field \<^verbatim>\<open>s QueryBuilder\<close> of a \<^verbatim>\<open>Subquery\<close> is an interface with the single method
  \<^verbatim>\<open>Build() (*Query, error)\<close>; it is represented by what that call returns.

  The declaration of \<^verbatim>\<open>Aggregate\<close> is not among the sources; its fields are the ones
  \<^verbatim>\<open>builder.buildAggregate\<close> reads (\<^verbatim>\<open>fn\<close>, \<^verbatim>\<open>table\<close>, \<^verbatim>\<open>arg\<close>, \<^verbatim>\<open>alias\<close>).
\<close>

datatype expr =
    ExprNil
  | ExprColumn column
  | ExprAggregate aggregate
  | ExprValue val
  | ExprRaw rawExpr
  | ExprMath binaryExpr
  | ExprPredicate binaryExpr
  | ExprSubqueryExpr subquery string
  | ExprSubquery subquery
  | ExprBinary binaryExpr
and binaryExpr = BinaryExpr (b_left: expr) (b_op: op) (b_right: expr)
and column = Column (c_table: tref) (c_name: string) (c_alias: string)
and aggregate = Aggregate (a_fn: string) (a_table: tref) (a_arg: string) (a_alias: string)
and tref =
    TNil
  | TTable table
  | TJoin join
  | TSubquery subquery
and join = Join (j_left: tref) (j_right: tref) (j_typ: string)
    (j_on: "binaryExpr list") (j_using: "string list")
and subquery = Subquery (s_Build: "error + query") (s_columns: "selectable list")
    (s_alias: string) (s_table: tref)
and selectable =
    SelColumn column
  | SelAggregate aggregate
  | SelRaw rawExpr


section \<open>Construction helpers\<close>

text \<open>column.go: \<^verbatim>\<open>C\<close>, \<^verbatim>\<open>Column.As\<close>, the arithmetic and the comparison builders.\<close>

definition C :: "string \<Rightarrow> column" where
  "C name = Column TNil name []"

text \<open>\<^verbatim>\<open>return Column{name: c.name, alias: alias}\<close>: the field \<^verbatim>\<open>table\<close> of the literal is
  left at its zero value \<^verbatim>\<open>nil\<close>.\<close>

definition As :: "column \<Rightarrow> string \<Rightarrow> column" where
  "As c alias = Column TNil (c_name c) alias"

text \<open>An \<^verbatim>\<open>any\<close> argument of a comparison builder is an \<^verbatim>\<open>Expression\<close> or some other
  value; \<^verbatim>\<open>exprOf\<close> (predicate.go) passes the first through and wraps the second.\<close>

datatype any = AnyExpr expr | AnyVal val

fun exprOf :: "any \<Rightarrow> expr" where
  "exprOf (AnyExpr exp) = exp"
| "exprOf (AnyVal exp) = ExprValue exp"

definition valueOf :: "val \<Rightarrow> expr" where
  "valueOf v = ExprValue v"

text \<open>\<^verbatim>\<open>Column.Add\<close> and \<^verbatim>\<open>Column.Multi\<close> (column.go); both literals read
  \<^verbatim>\<open>op: opAdd\<close>.  The result is a \<^verbatim>\<open>MathExpr\<close>.\<close>

definition Column_Add :: "column \<Rightarrow> int \<Rightarrow> binaryExpr" where
  "Column_Add c delta = BinaryExpr (ExprColumn c) opAdd (ExprValue (VInt delta))"

definition Column_Multi :: "column \<Rightarrow> int \<Rightarrow> binaryExpr" where
  "Column_Multi c delta = BinaryExpr (ExprColumn c) opAdd (ExprValue (VInt delta))"

text \<open>\<^verbatim>\<open>MathExpr.Add\<close> and \<^verbatim>\<open>MathExpr.Multi\<close> (expression.go).\<close>

definition MathExpr_Add :: "binaryExpr \<Rightarrow> val \<Rightarrow> binaryExpr" where
  "MathExpr_Add m v = BinaryExpr (ExprMath m) opAdd (valueOf v)"

definition MathExpr_Multi :: "binaryExpr \<Rightarrow> val \<Rightarrow> binaryExpr" where
  "MathExpr_Multi m v = BinaryExpr (ExprMath m) opMulti (valueOf v)"

text \<open>The comparison builders of \<^verbatim>\<open>Column\<close>; each result is a \<^verbatim>\<open>Predicate\<close>.\<close>

definition EQ :: "column \<Rightarrow> any \<Rightarrow> binaryExpr" where
  "EQ c arg = BinaryExpr (ExprColumn c) opEQ (exprOf arg)"

definition LT :: "column \<Rightarrow> any \<Rightarrow> binaryExpr" where
  "LT c arg = BinaryExpr (ExprColumn c) opLT (exprOf arg)"

definition GT :: "column \<Rightarrow> any \<Rightarrow> binaryExpr" where
  "GT c arg = BinaryExpr (ExprColumn c) opGT (exprOf arg)"

definition In :: "column \<Rightarrow> val list \<Rightarrow> binaryExpr" where
  "In c vals = BinaryExpr (ExprColumn c) opIN (valueOf (VList vals))"

definition InQuery :: "column \<Rightarrow> subquery \<Rightarrow> binaryExpr" where
  "InQuery c sub = BinaryExpr (ExprColumn c) opIN (ExprSubquery sub)"

text \<open>predicate.go: the combinators of \<^verbatim>\<open>Predicate\<close>.\<close>

definition Exist :: "subquery \<Rightarrow> binaryExpr" where
  "Exist sub = BinaryExpr ExprNil opExist (ExprSubquery sub)"

definition Not :: "binaryExpr \<Rightarrow> binaryExpr" where
  "Not p = BinaryExpr ExprNil opNOT (ExprPredicate p)"

definition And :: "binaryExpr \<Rightarrow> binaryExpr \<Rightarrow> binaryExpr" where
  "And p q = BinaryExpr (ExprPredicate p) opAND (ExprPredicate q)"

definition Or :: "binaryExpr \<Rightarrow> binaryExpr \<Rightarrow> binaryExpr" where
  "Or p q = BinaryExpr (ExprPredicate p) opOR (ExprPredicate q)"

text \<open>expression.go: \<^verbatim>\<open>Raw\<close> and \<^verbatim>\<open>RawExpr.AsPredicate\<close> (a \<^verbatim>\<open>Predicate\<close> with only a left
  operand).\<close>

definition Raw :: "string \<Rightarrow> val list \<Rightarrow> rawExpr" where
  "Raw e as = RawExpr e as"


text \<open>table.go: the methods of the \<^verbatim>\<open>TableReference\<close> and \<^verbatim>\<open>Selectable\<close> interfaces.
  \<^verbatim>\<open>tableAlias\<close> is only called on a reference that is not \<^verbatim>\<open>nil\<close>.\<close>

fun tableAlias :: "tref \<Rightarrow> string" where
  "tableAlias (TTable t) = t_alias t"
| "tableAlias (TJoin j) = []"
| "tableAlias (TSubquery s) = s_alias s"

text \<open>Modelled from the spec: the methods of \<^verbatim>\<open>Aggregate\<close>, whose declaration is not
  among the sources ("every variant that appears as a selectable can report an optional
  alias, a field name, and its owning table reference").\<close>

fun selectedAlias :: "selectable \<Rightarrow> string" where
  "selectedAlias (SelColumn c) = c_alias c"
| "selectedAlias (SelRaw x) = []"
| "selectedAlias (SelAggregate a) = a_alias a"

fun fieldName :: "selectable \<Rightarrow> string" where
  "fieldName (SelColumn c) = c_name c"
| "fieldName (SelRaw x) = []"
| "fieldName (SelAggregate a) = a_arg a"

fun target :: "selectable \<Rightarrow> tref" where
  "target (SelColumn c) = c_table c"
| "target (SelRaw x) = TNil"
| "target (SelAggregate a) = a_table a"

section \<open>The SQL compiler\<close>

text \<open>
  The dialects of dialect.go.  \<^verbatim>\<open>builder\<close> (builder.go) with the part of the embedded
  \<^verbatim>\<open>core\<close> it reads: \<^verbatim>\<open>r_Get\<close> is the registry's \<^verbatim>\<open>r.Get\<close>, a function of the entity's
  type.  \<^verbatim>\<open>sb\<close> is the text written so far.
\<close>

datatype dialect = MySQL | SQLite3

record builder =
  r_Get :: "entity \<Rightarrow> error + model"
  dialect :: dialect
  sb :: string
  args :: "val list option"
  quoter :: char
  model :: model

definition dialect_quoter :: "dialect \<Rightarrow> char" where
  "dialect_quoter d = (case d of MySQL \<Rightarrow> CHR 0x60 | SQLite3 \<Rightarrow> CHR 0x60)"

definition WriteByte :: "builder \<Rightarrow> char \<Rightarrow> builder" where
  "WriteByte b c = b\<lparr>sb := sb b @ [c]\<rparr>"

definition WriteString :: "builder \<Rightarrow> string \<Rightarrow> builder" where
  "WriteString b s = b\<lparr>sb := sb b @ s\<rparr>"

text \<open>The elements of a slice that may be \<^verbatim>\<open>nil\<close>.\<close>

fun elems :: "'a list option \<Rightarrow> 'a list" where
  "elems None = []"
| "elems (Some xs) = xs"

definition quote :: "builder \<Rightarrow> string \<Rightarrow> builder" where
  "quote b name = WriteByte (WriteString (WriteByte b (quoter b)) name) (quoter b)"

text \<open>\<^verbatim>\<open>addArgs\<close>: a \<^verbatim>\<open>nil\<close> argument list is first allocated (with capacity eight, which
  no result shows), then the arguments are appended.\<close>

definition addArgs :: "builder \<Rightarrow> val list \<Rightarrow> builder" where
  "addArgs b as =
     (let b1 = (if args b = None then b\<lparr>args := Some []\<rparr> else b)
      in b1\<lparr>args := Some (elems (args b1) @ as)\<rparr>)"

definition raw_expr :: "builder \<Rightarrow> rawExpr \<Rightarrow> builder" where
  "raw_expr b x =
     (let b1 = WriteString b (raw x)
      in if length (raw_args x) \<noteq> 0 then addArgs b1 (raw_args x) else b1)"

text \<open>Sizes of the parts of a table reference, for the termination of \<^verbatim>\<open>colName\<close>.\<close>

lemma size_target: "size (target c) \<le> size c"
proof (cases c)
  case (SelColumn x)
  then show ?thesis by (cases x) simp
next
  case (SelAggregate x)
  then show ?thesis by (cases x) simp
next
  case (SelRaw x)
  then show ?thesis by simp
qed

lemma size_join_parts: "size (j_left j) < size j" "size (j_right j) < size j"
  by (cases j; simp)+

lemma size_subquery_parts:
  "size (s_table s) < size s" "size_list size (s_columns s) < size s"
  by (cases s; simp)+

text \<open>\<^verbatim>\<open>colName\<close> returns Go's pair \<^verbatim>\<open>(string, error)\<close>.  The second function is the loop
  over the projected columns of a subquery.\<close>

function colName :: "builder \<Rightarrow> tref \<Rightarrow> string \<Rightarrow> string \<times> error option"
  and colName_columns :: "builder \<Rightarrow> selectable list \<Rightarrow> string \<Rightarrow> string \<times> error option"
where
  "colName b TNil fd =
     (case FieldMap (model b) fd of
        None \<Rightarrow> ([], Some (ErrUnknownField fd))
      | Some fdMeta \<Rightarrow> (ColName fdMeta, None))"
| "colName b (TTable tab) fd =
     (case r_Get b (entity tab) of
        Inl err \<Rightarrow> ([], Some err)
      | Inr m \<Rightarrow>
          (case FieldMap m fd of
             None \<Rightarrow> ([], Some (ErrUnknownField fd))
           | Some fdMeta \<Rightarrow> (ColName fdMeta, None)))"
| "colName b (TJoin tab) fd =
     (case colName b (j_left tab) fd of
        (colName', err) \<Rightarrow>
          if err \<noteq> None then (colName', None)
          else colName b (j_right tab) fd)"
| "colName b (TSubquery tab) fd =
     (if length (s_columns tab) > 0 then colName_columns b (s_columns tab) fd
      else colName b (s_table tab) fd)"
| "colName_columns b [] fd = ([], Some (ErrUnknownField fd))"
| "colName_columns b (c # cs) fd =
     (if selectedAlias c = fd then (fd, None)
      else if fieldName c = fd then colName b (target c) fd
      else colName_columns b cs fd)"
  by pat_completeness auto

termination
  by (relation "measure (\<lambda>x. case x of Inl (b, t, fd) \<Rightarrow> size t
                                       | Inr (b, cs, fd) \<Rightarrow> size_list size cs)")
     (auto simp: less_Suc_eq_le size_join_parts size_subquery_parts
           intro: order.strict_implies_order trans_le_add1 size_target)

text \<open>\<^verbatim>\<open>buildColumn\<close>: an optional \<^verbatim>\<open>alias.\<close> prefix, then the quoted column name.\<close>

definition buildColumn :: "builder \<Rightarrow> tref \<Rightarrow> string \<Rightarrow> error + builder" where
  "buildColumn b table fd =
     (let alias = (if table \<noteq> TNil then tableAlias table else []);
          b1 = (if alias \<noteq> [] then WriteByte (quote b alias) CHR ''.'' else b)
      in case colName b1 table fd of
           (colName', Some err) \<Rightarrow> Inl err
         | (colName', None) \<Rightarrow> Inr (quote b1 colName'))"

definition buildAs :: "builder \<Rightarrow> string \<Rightarrow> builder" where
  "buildAs b alias = (if alias \<noteq> [] then quote (WriteString b '' AS '') alias else b)"

definition buildAggregate :: "builder \<Rightarrow> aggregate \<Rightarrow> bool \<Rightarrow> error + builder" where
  "buildAggregate b a useAlias =
     (let b1 = WriteByte (WriteString b (a_fn a)) CHR ''(''
      in case buildColumn b1 (a_table a) (a_arg a) of
           Inl err \<Rightarrow> Inl err
         | Inr b2 \<Rightarrow>
             (let b3 = WriteByte b2 CHR '')''
              in Inr (if useAlias then buildAs b3 (a_alias a) else b3)))"

text \<open>\<^verbatim>\<open>buildSubquery\<close>: the inner statement without its last byte, in parentheses, its
  arguments spliced in.  \<^verbatim>\<open>q.SQL[:len(q.SQL)-1]\<close> panics on an empty text.\<close>

definition buildSubquery :: "builder \<Rightarrow> subquery \<Rightarrow> bool \<Rightarrow> error + builder" where
  "buildSubquery b tab useAlias =
     (case s_Build tab of
        Inl err \<Rightarrow> Inl err
      | Inr q \<Rightarrow>
          if SQL q = [] then Inl Panic
          else
            (let b1 = WriteByte b CHR ''('';
                 b2 = WriteString b1 (butlast (SQL q));
                 b3 = (if length (elems (Args q)) > 0 then addArgs b2 (elems (Args q)) else b2);
                 b4 = WriteByte b3 CHR '')'';
                 b5 = WriteByte b4 CHR '' ''
             in Inr (if useAlias then quote (WriteString b5 '' AS '') (s_alias tab) else b5)))"

text \<open>\<^verbatim>\<open>buildExpression\<close>, \<^verbatim>\<open>buildBinaryExpr\<close> and \<^verbatim>\<open>buildSubExpr\<close>.  Every type that
  implements \<^verbatim>\<open>Expression\<close> has its case, so the \<^verbatim>\<open>default\<close> branch of
  \<^verbatim>\<open>buildExpression\<close> is never taken.\<close>

fun buildExpression :: "builder \<Rightarrow> expr \<Rightarrow> error + builder"
  and buildBinaryExpr :: "builder \<Rightarrow> binaryExpr \<Rightarrow> error + builder"
  and buildSubExpr :: "builder \<Rightarrow> expr \<Rightarrow> error + builder"
where
  "buildExpression b ExprNil = Inr b"
| "buildExpression b (ExprColumn exp) = buildColumn b (c_table exp) (c_name exp)"
| "buildExpression b (ExprAggregate exp) = buildAggregate b exp False"
| "buildExpression b (ExprValue v) = Inr (addArgs (WriteByte b CHR ''?'') [v])"
| "buildExpression b (ExprRaw exp) = Inr (raw_expr b exp)"
| "buildExpression b (ExprMath exp) = buildBinaryExpr b exp"
| "buildExpression b (ExprPredicate exp) = buildBinaryExpr b exp"
| "buildExpression b (ExprSubqueryExpr s pred) =
     buildSubquery (WriteByte (WriteString b pred) CHR '' '') s False"
| "buildExpression b (ExprSubquery exp) = buildSubquery b exp False"
| "buildExpression b (ExprBinary exp) = buildBinaryExpr b exp"
| "buildBinaryExpr b (BinaryExpr l opr rt) =
     (case buildSubExpr b l of
        Inl err \<Rightarrow> Inl err
      | Inr b1 \<Rightarrow>
          (let b2 = (if opr \<noteq> [] then WriteString (WriteByte b1 CHR '' '') opr else b1)
           in if rt \<noteq> ExprNil then buildSubExpr (WriteByte b2 CHR '' '') rt
              else Inr b2))"
| "buildSubExpr b (ExprMath sub) =
     (case buildBinaryExpr (WriteByte b CHR ''('') sub of
        Inl err \<Rightarrow> Inl err
      | Inr b1 \<Rightarrow> Inr (WriteByte b1 CHR '')''))"
| "buildSubExpr b (ExprBinary sub) =
     (case buildBinaryExpr (WriteByte b CHR ''('') sub of
        Inl err \<Rightarrow> Inl err
      | Inr b1 \<Rightarrow> Inr (WriteByte b1 CHR '')''))"
| "buildSubExpr b (ExprPredicate sub) =
     (case buildBinaryExpr (WriteByte b CHR ''('') sub of
        Inl err \<Rightarrow> Inl err
      | Inr b1 \<Rightarrow> Inr (WriteByte b1 CHR '')''))"
| "buildSubExpr b ExprNil = buildExpression b ExprNil"
| "buildSubExpr b (ExprColumn c) = buildExpression b (ExprColumn c)"
| "buildSubExpr b (ExprAggregate a) = buildExpression b (ExprAggregate a)"
| "buildSubExpr b (ExprValue v) = buildExpression b (ExprValue v)"
| "buildSubExpr b (ExprRaw x) = buildExpression b (ExprRaw x)"
| "buildSubExpr b (ExprSubqueryExpr s pred) = buildExpression b (ExprSubqueryExpr s pred)"
| "buildSubExpr b (ExprSubquery s) = buildExpression b (ExprSubquery s)"

text \<open>\<^verbatim>\<open>buildPredicates\<close>: the predicates are folded into one by \<^verbatim>\<open>And\<close>, from the left;
  \<^verbatim>\<open>ps[0]\<close> panics on an empty list.\<close>

fun buildPredicates_loop :: "binaryExpr \<Rightarrow> binaryExpr list \<Rightarrow> binaryExpr" where
  "buildPredicates_loop p [] = p"
| "buildPredicates_loop p (q # qs) = buildPredicates_loop (And p q) qs"

definition buildPredicates :: "builder \<Rightarrow> binaryExpr list \<Rightarrow> error + builder" where
  "buildPredicates b ps =
     (case ps of
        [] \<Rightarrow> Inl Panic
      | p # rest \<Rightarrow> buildExpression b (ExprPredicate (buildPredicates_loop p rest)))"

section \<open>What a build appends\<close>

text \<open>
  Every function of the builder only appends to the text and to the argument list.
  \<^verbatim>\<open>fresh b\<close> is \<^verbatim>\<open>b\<close> with an empty text and no arguments, \<^verbatim>\<open>splice s a b\<close> is \<^verbatim>\<open>b\<close> with
  \<^verbatim>\<open>s\<close> and \<^verbatim>\<open>a\<close> put before its text and its arguments, and \<^verbatim>\<open>compiled\<close> reads the text and
  the arguments off the result of a build.
\<close>

definition app_args :: "val list option \<Rightarrow> val list option \<Rightarrow> val list option" where
  "app_args a x = (case x of None \<Rightarrow> a | Some xs \<Rightarrow> Some (elems a @ xs))"

definition splice :: "string \<Rightarrow> val list option \<Rightarrow> builder \<Rightarrow> builder" where
  "splice s a b = b\<lparr>sb := s @ sb b, args := app_args a (args b)\<rparr>"

definition fresh :: "builder \<Rightarrow> builder" where
  "fresh b = b\<lparr>sb := [], args := None\<rparr>"

definition compiled :: "error + builder \<Rightarrow> error + string \<times> val list" where
  "compiled res = map_sum id (\<lambda>b. (sb b, elems (args b))) res"

lemma elems_app_args: "elems (app_args a x) = elems a @ elems x"
  by (cases x) (simp_all add: app_args_def)

lemma splice_fields [simp]:
  "r_Get (splice s a b) = r_Get b" "dialect (splice s a b) = dialect b"
  "quoter (splice s a b) = quoter b" "model (splice s a b) = model b"
  "sb (splice s a b) = s @ sb b" "args (splice s a b) = app_args a (args b)"
  by (simp_all add: splice_def)

lemma fresh_fields [simp]:
  "r_Get (fresh b) = r_Get b" "dialect (fresh b) = dialect b"
  "quoter (fresh b) = quoter b" "model (fresh b) = model b"
  "sb (fresh b) = []" "args (fresh b) = None"
  by (simp_all add: fresh_def)

lemma splice_fresh: "splice (sb b) (args b) (fresh b) = b"
  by (simp add: splice_def fresh_def app_args_def)

lemma WriteByte_splice: "WriteByte (splice s a b) c = splice s a (WriteByte b c)"
  by (simp add: WriteByte_def splice_def)

lemma WriteString_splice: "WriteString (splice s a b) t = splice s a (WriteString b t)"
  by (simp add: WriteString_def splice_def)

lemma quote_splice: "quote (splice s a b) n = splice s a (quote b n)"
  by (simp add: quote_def WriteByte_splice WriteString_splice)

lemma addArgs_splice: "addArgs (splice s a b) as = splice s a (addArgs b as)"
  by (simp add: addArgs_def splice_def app_args_def Let_def elems_app_args split: option.splits)

lemma raw_expr_splice: "raw_expr (splice s a b) x = splice s a (raw_expr b x)"
  by (simp add: raw_expr_def Let_def WriteString_splice addArgs_splice)

lemma colName_splice:
  "colName (splice s a b) t fd = colName b t fd"
  "colName_columns (splice s a b) cs fd = colName_columns b cs fd"
  by (induction b t fd and b cs fd rule: colName_colName_columns.induct)
     (simp_all split: prod.splits)

lemma buildColumn_splice:
  "buildColumn (splice s a b) t fd = map_sum id (splice s a) (buildColumn b t fd)"
  by (simp add: buildColumn_def Let_def colName_splice quote_splice WriteByte_splice
      split: prod.splits option.splits)

lemma buildAs_splice: "buildAs (splice s a b) al = splice s a (buildAs b al)"
  by (simp add: buildAs_def quote_splice WriteString_splice)

lemma buildAggregate_splice:
  "buildAggregate (splice s a b) g u = map_sum id (splice s a) (buildAggregate b g u)"
  by (cases "buildColumn (WriteByte (WriteString b (a_fn g)) CHR ''('') (a_table g) (a_arg g)")
     (simp_all add: buildAggregate_def Let_def buildColumn_splice WriteByte_splice
        WriteString_splice buildAs_splice)

lemma buildSubquery_splice:
  "buildSubquery (splice s a b) q u = map_sum id (splice s a) (buildSubquery b q u)"
  by (simp add: buildSubquery_def Let_def WriteByte_splice WriteString_splice addArgs_splice
      quote_splice split: sum.splits)

lemma build_splice:
  "buildExpression (splice s a b) e = map_sum id (splice s a) (buildExpression b e)"
  "buildBinaryExpr (splice s a b) n = map_sum id (splice s a) (buildBinaryExpr b n)"
  "buildSubExpr (splice s a b) e' = map_sum id (splice s a) (buildSubExpr b e')"
proof (induction b e and b n and b e' arbitrary: s a and s a and s a
    rule: buildExpression_buildBinaryExpr_buildSubExpr.induct)
  case (11 b l opr rt)
  show ?case
  proof (cases "buildSubExpr b l")
    case (Inl err)
    then show ?thesis using 11(1)[of s a] by simp
  next
    case (Inr b1)
    then show ?thesis
      using 11(1)[of s a] 11(2)[OF Inr refl, of s a]
      by (cases "opr = []"; cases "rt = ExprNil")
         (simp_all add: Let_def WriteByte_splice WriteString_splice)
  qed
qed (simp_all add: buildColumn_splice buildAggregate_splice buildSubquery_splice
      WriteByte_splice WriteString_splice addArgs_splice raw_expr_splice split: sum.splits)

lemma compiled_splice:
  "compiled (map_sum id (splice s a) res) =
     (case compiled res of Inl err \<Rightarrow> Inl err | Inr (t, as) \<Rightarrow> Inr (s @ t, elems a @ as))"
  by (cases res) (simp_all add: compiled_def elems_app_args)

lemma fresh_prims [simp]:
  "fresh (WriteByte b c) = fresh b" "fresh (WriteString b t) = fresh b"
  "fresh (quote b n) = fresh b" "fresh (addArgs b as) = fresh b"
  "fresh (raw_expr b x) = fresh b" "fresh (buildAs b al) = fresh b"
  "fresh (splice s a b) = fresh b" "fresh (fresh b) = fresh b"
  by (simp_all add: fresh_def WriteByte_def WriteString_def quote_def addArgs_def raw_expr_def
      buildAs_def splice_def Let_def)

lemma prim_fields [simp]:
  "sb (WriteByte b c) = sb b @ [c]" "args (WriteByte b c) = args b"
  "sb (WriteString b t) = sb b @ t" "args (WriteString b t) = args b"
  by (simp_all add: WriteByte_def WriteString_def)

lemma builder_eqI:
  "fresh x = fresh y \<Longrightarrow> sb x = sb y \<Longrightarrow> args x = args y \<Longrightarrow> x = (y::builder)"
  by (cases x; cases y) (simp add: fresh_def)







lemma buildBinaryExpr_appends:
  "compiled (buildBinaryExpr b n) =
     (case compiled (buildBinaryExpr (fresh b) n) of
        Inl err \<Rightarrow> Inl err
      | Inr (t, as) \<Rightarrow> Inr (sb b @ t, elems (args b) @ as))"
  using build_splice(2)[of "sb b" "args b" "fresh b" n]
  by (simp add: splice_fresh compiled_splice)





section \<open>An example schema\<close>

text \<open>
  Two record types as the registry describes them: \<^verbatim>\<open>User{Id, Name, Age}\<close> and
  \<^verbatim>\<open>Order{Id, Amount}\<close> whose \<^verbatim>\<open>Id\<close> carries the tag \<^verbatim>\<open>orm:"column=order_id"\<close>.
\<close>

definition userFields :: "field list" where
  "userFields =
     [\<lparr>ColName = ''id'', GoName = ''Id'', Type = ''int64'', Index = 0, Offset = 0\<rparr>,
      \<lparr>ColName = ''name'', GoName = ''Name'', Type = ''string'', Index = 1, Offset = 8\<rparr>,
      \<lparr>ColName = ''age'', GoName = ''Age'', Type = ''int8'', Index = 2, Offset = 24\<rparr>]"

definition orderFields :: "field list" where
  "orderFields =
     [\<lparr>ColName = ''order_id'', GoName = ''Id'', Type = ''int64'', Index = 0, Offset = 0\<rparr>,
      \<lparr>ColName = ''amount'', GoName = ''Amount'', Type = ''int64'', Index = 1, Offset = 8\<rparr>]"

definition userModel :: model where
  "userModel = \<lparr>TableName = ''user'', Fields = userFields,
     FieldMap = map_of (map (\<lambda>f. (GoName f, f)) userFields),
     ColumnMap = map_of (map (\<lambda>f. (ColName f, f)) userFields)\<rparr>"

definition orderModel :: model where
  "orderModel = \<lparr>TableName = ''order'', Fields = orderFields,
     FieldMap = map_of (map (\<lambda>f. (GoName f, f)) orderFields),
     ColumnMap = map_of (map (\<lambda>f. (ColName f, f)) orderFields)\<rparr>"

definition exampleRegistry :: "entity \<Rightarrow> error + model" where
  "exampleRegistry e =
     (if e = ''User'' then Inr userModel
      else if e = ''Order'' then Inr orderModel
      else Inl ErrPointerOnly)"

definition exampleBuilder :: builder where
  "exampleBuilder = \<lparr>r_Get = exampleRegistry, dialect = MySQL, sb = [], args = None,
     quoter = dialect_quoter MySQL, model = userModel\<rparr>"

lemmas example_defs =
  exampleBuilder_def exampleRegistry_def userModel_def orderModel_def userFields_def
  orderFields_def dialect_quoter_def

lemmas builder_defs =
  WriteByte_def WriteString_def quote_def addArgs_def raw_expr_def buildColumn_def buildAs_def
  buildAggregate_def buildSubquery_def buildPredicates_def Let_def

section \<open>Column construction\<close>

text \<open>
  C7.  \<^verbatim>\<open>Column.As\<close> copies the name and sets the alias, but the copy's owning table
  reference is \<^verbatim>\<open>nil\<close> whatever the receiver's was: for the column \<^verbatim>\<open>Id\<close> of the table
  \<^verbatim>\<open>User\<close> aliased \<^verbatim>\<open>t1\<close>, the renamed copy is no longer a column of \<^verbatim>\<open>t1\<close>.
\<close>

theorem Column_As_drops_table:
  "c_name (As c a) = c_name c \<and> c_alias (As c a) = a \<and> c_table (As c a) = TNil \<and>
   As (Column (TTable (Table ''User'' ''t1'')) ''Id'' []) ''my_id'' = Column TNil ''Id'' ''my_id'' \<and>
   c_table (As (Column (TTable (Table ''User'' ''t1'')) ''Id'' []) ''my_id'')
     \<noteq> c_table (Column (TTable (Table ''User'' ''t1'')) ''Id'' [])"
  by (simp add: As_def)

text \<open>
  C8.  \<^verbatim>\<open>Column.Multi\<close> builds the same node as \<^verbatim>\<open>Column.Add\<close>: its operator is \<^verbatim>\<open>+\<close>, not
  \<^verbatim>\<open>*\<close>, and \<^verbatim>\<open>C("Age").Multi(2)\<close> compiles to the text \<^verbatim>\<open>`age` + ?\<close>.  \<^verbatim>\<open>MathExpr.Multi\<close>
  does use \<^verbatim>\<open>*\<close>.
\<close>

theorem Column_Multi_emits_add:
  "Column_Multi c delta = Column_Add c delta \<and>
   b_op (Column_Multi c delta) = ''+'' \<and>
   b_op (Column_Multi c delta) \<noteq> opMulti \<and>
   b_op (MathExpr_Multi m v) = ''*'' \<and>
   compiled (buildExpression exampleBuilder (ExprMath (Column_Multi (C ''Age'') 2)))
     = Inr ([CHR 0x60] @ ''age'' @ [CHR 0x60] @ '' + ?'', [VInt 2])"
  by (simp add: Column_Multi_def Column_Add_def MathExpr_Multi_def opAdd_def opMulti_def C_def
      compiled_def builder_defs example_defs)

section \<open>Column resolution through a join\<close>

text \<open>
  C2.  For a join, \<^verbatim>\<open>colName\<close> looks the field up on the left; when that lookup fails it
  returns the empty name with no error, and when it succeeds it drops the result and
  returns what the right side gives.  On \<^verbatim>\<open>User JOIN Order\<close>: \<^verbatim>\<open>Name\<close>, a field of the
  left relation only, ends in the right relation's \<^verbatim>\<open>UnknownField\<close>; \<^verbatim>\<open>Id\<close>, a field of
  both, resolves to the right relation's column \<^verbatim>\<open>order_id\<close>; \<^verbatim>\<open>Amount\<close>, a field of the
  right relation only, resolves to the empty name.
\<close>

theorem colName_join_prefers_right:
  "colName exampleBuilder
     (TJoin (Join (TTable (Table ''User'' [])) (TTable (Table ''Order'' [])) ''JOIN'' [] []))
     ''Name'' = ([], Some (ErrUnknownField ''Name'')) \<and>
   colName exampleBuilder
     (TJoin (Join (TTable (Table ''User'' [])) (TTable (Table ''Order'' [])) ''JOIN'' [] []))
     ''Id'' = (''order_id'', None) \<and>
   colName exampleBuilder
     (TJoin (Join (TTable (Table ''User'' [])) (TTable (Table ''Order'' [])) ''JOIN'' [] []))
     ''Amount'' = ([], None)"
  by (simp add: example_defs)

section \<open>Parentheses around nested binary operands\<close>

text \<open>The model of a record type with a field \<^verbatim>\<open>age\<close>.\<close>

definition testModel :: model where
  "testModel = \<lparr>TableName = ''test_model'',
     Fields = [\<lparr>ColName = ''age'', GoName = ''age'', Type = ''int8'', Index = 0, Offset = 0\<rparr>],
     FieldMap = [''age'' \<mapsto> \<lparr>ColName = ''age'', GoName = ''age'', Type = ''int8'', Index = 0, Offset = 0\<rparr>],
     ColumnMap = [''age'' \<mapsto> \<lparr>ColName = ''age'', GoName = ''age'', Type = ''int8'', Index = 0, Offset = 0\<rparr>]\<rparr>"




section \<open>Upsert clauses\<close>

text \<open>
  assignment.go and insert.go: \<^verbatim>\<open>Assignment\<close>, the interface \<^verbatim>\<open>Assignable\<close> as the sum of
  the types with an \<^verbatim>\<open>assign()\<close> method (\<^verbatim>\<open>Column\<close>, \<^verbatim>\<open>Assignment\<close>, \<^verbatim>\<open>RawExpr\<close>), and
  \<^verbatim>\<open>Upsert\<close>.
\<close>

datatype assignment = Assignment (a_column: string) (a_val: expr)

datatype assignable =
    AssignColumn column
  | AssignAssignment assignment
  | AssignRaw rawExpr

record upsert =
  conflictColumns :: "string list"
  assigns :: "assignable list"

definition Assign :: "string \<Rightarrow> any \<Rightarrow> assignment" where
  "Assign column v =
     Assignment column (case v of AnyExpr e \<Rightarrow> e | AnyVal x \<Rightarrow> ExprValue x)"

text \<open>
  dialect.go, \<^verbatim>\<open>mysqlDialect.buildUpsert\<close>.  The loop over \<^verbatim>\<open>odk.assigns\<close> carries the
  index; the \<^verbatim>\<open>Assignment\<close> case ends in \<^verbatim>\<open>return b.buildExpression(assign.val)\<close>, which
  leaves the function.
\<close>

fun mysql_assigns :: "builder \<Rightarrow> nat \<Rightarrow> assignable list \<Rightarrow> error + builder" where
  "mysql_assigns b idx [] = Inr b"
| "mysql_assigns b idx (a # rest) =
     (let b1 = (if idx > 0 then WriteByte b CHR '','' else b)
      in case a of
           AssignColumn assign \<Rightarrow>
             (case colName b1 (c_table assign) (c_name assign) of
                (colName', Some err) \<Rightarrow> Inl err
              | (colName', None) \<Rightarrow>
                  mysql_assigns
                    (WriteByte (quote (WriteString (quote b1 colName') ''=VALUES('') colName')
                       CHR '')'')
                    (idx + 1) rest)
         | AssignAssignment assign \<Rightarrow>
             (case buildColumn b1 TNil (a_column assign) of
                Inl err \<Rightarrow> Inl err
              | Inr b2 \<Rightarrow> buildExpression (WriteString b2 ''='') (a_val assign))
         | AssignRaw x \<Rightarrow> Inl ErrUnsupportedAssignableType)"

definition mysql_buildUpsert :: "builder \<Rightarrow> upsert \<Rightarrow> error + builder" where
  "mysql_buildUpsert b odk =
     mysql_assigns (WriteString b '' ON DUPLICATE KEY UPDATE '') 0 (assigns odk)"

text \<open>\<^verbatim>\<open>sqlite3Dialect.buildUpsert\<close>: the conflict columns, then the same loop with
  \<^verbatim>\<open>=excluded.\<close>.\<close>

fun sqlite3_conflictColumns :: "builder \<Rightarrow> nat \<Rightarrow> string list \<Rightarrow> error + builder" where
  "sqlite3_conflictColumns b i [] = Inr b"
| "sqlite3_conflictColumns b i (col # rest) =
     (let b1 = (if i > 0 then WriteByte b CHR '','' else b)
      in case buildColumn b1 TNil col of
           Inl err \<Rightarrow> Inl err
         | Inr b2 \<Rightarrow> sqlite3_conflictColumns b2 (i + 1) rest)"

fun sqlite3_assigns :: "builder \<Rightarrow> nat \<Rightarrow> assignable list \<Rightarrow> error + builder" where
  "sqlite3_assigns b idx [] = Inr b"
| "sqlite3_assigns b idx (a # rest) =
     (let b1 = (if idx > 0 then WriteByte b CHR '','' else b)
      in case a of
           AssignColumn assign \<Rightarrow>
             (case colName b1 (c_table assign) (c_name assign) of
                (colName', Some err) \<Rightarrow> Inl err
              | (colName', None) \<Rightarrow>
                  sqlite3_assigns
                    (quote (WriteString (quote b1 colName') ''=excluded.'') colName')
                    (idx + 1) rest)
         | AssignAssignment assign \<Rightarrow>
             (case buildColumn b1 TNil (a_column assign) of
                Inl err \<Rightarrow> Inl err
              | Inr b2 \<Rightarrow> buildExpression (WriteString b2 ''='') (a_val assign))
         | AssignRaw x \<Rightarrow> Inl ErrUnsupportedAssignableType)"

definition sqlite3_buildUpsert :: "builder \<Rightarrow> upsert \<Rightarrow> error + builder" where
  "sqlite3_buildUpsert b odk =
     (let b1 = WriteString b '' ON CONFLICT''
      in case (if length (conflictColumns odk) > 0
               then (case sqlite3_conflictColumns (WriteByte b1 CHR ''('') 0 (conflictColumns odk) of
                       Inl err \<Rightarrow> Inl err
                     | Inr b2 \<Rightarrow> Inr (WriteByte b2 CHR '')''))
               else Inr b1) of
           Inl err \<Rightarrow> Inl err
         | Inr b3 \<Rightarrow> sqlite3_assigns (WriteString b3 '' DO UPDATE SET '') 0 (assigns odk))"

definition buildUpsert :: "dialect \<Rightarrow> builder \<Rightarrow> upsert \<Rightarrow> error + builder" where
  "buildUpsert d b odk =
     (case d of MySQL \<Rightarrow> mysql_buildUpsert b odk | SQLite3 \<Rightarrow> sqlite3_buildUpsert b odk)"

lemmas upsert_defs =
  buildUpsert_def mysql_buildUpsert_def sqlite3_buildUpsert_def Assign_def


text \<open>
  C4.  With one self-referential column both dialects emit the clause the claim gives.
  An \<^verbatim>\<open>Assignment\<close> entry ends the clause: after \<^verbatim>\<open>Assign("Age", 1)\<close> the column \<^verbatim>\<open>Name\<close> is
  not compiled, in either dialect, and an entry of unsupported shape (a \<^verbatim>\<open>RawExpr\<close>)
  after it is not reported, while the same entry after a column is.
\<close>

theorem buildUpsert_stops_at_Assignment:
  "compiled (buildUpsert MySQL exampleBuilder
      \<lparr>conflictColumns = [''Id''], assigns = [AssignColumn (C ''Name'')]\<rparr>) =
     Inr ('' ON DUPLICATE KEY UPDATE '' @ [CHR 0x60] @ ''name'' @ [CHR 0x60] @ ''=VALUES(''
            @ [CHR 0x60] @ ''name'' @ [CHR 0x60] @ '')'', []) \<and>
   compiled (buildUpsert SQLite3 exampleBuilder
      \<lparr>conflictColumns = [''Id''], assigns = [AssignColumn (C ''Name'')]\<rparr>) =
     Inr ('' ON CONFLICT('' @ [CHR 0x60] @ ''id'' @ [CHR 0x60] @ '') DO UPDATE SET ''
            @ [CHR 0x60] @ ''name'' @ [CHR 0x60] @ ''=excluded.'' @ [CHR 0x60] @ ''name''
            @ [CHR 0x60], []) \<and>
   compiled (buildUpsert MySQL exampleBuilder
      \<lparr>conflictColumns = [''Id''],
       assigns = [AssignAssignment (Assign ''Age'' (AnyVal (VInt 1))), AssignColumn (C ''Name'')]\<rparr>) =
     Inr ('' ON DUPLICATE KEY UPDATE '' @ [CHR 0x60] @ ''age'' @ [CHR 0x60] @ ''=?'', [VInt 1]) \<and>
   compiled (buildUpsert SQLite3 exampleBuilder
      \<lparr>conflictColumns = [''Id''],
       assigns = [AssignAssignment (Assign ''Age'' (AnyVal (VInt 1))), AssignColumn (C ''Name'')]\<rparr>) =
     Inr ('' ON CONFLICT('' @ [CHR 0x60] @ ''id'' @ [CHR 0x60] @ '') DO UPDATE SET ''
            @ [CHR 0x60] @ ''age'' @ [CHR 0x60] @ ''=?'', [VInt 1]) \<and>
   compiled (buildUpsert MySQL exampleBuilder
      \<lparr>conflictColumns = [''Id''],
       assigns = [AssignAssignment (Assign ''Age'' (AnyVal (VInt 1))), AssignRaw (Raw ''now()'' [])]\<rparr>) =
     Inr ('' ON DUPLICATE KEY UPDATE '' @ [CHR 0x60] @ ''age'' @ [CHR 0x60] @ ''=?'', [VInt 1]) \<and>
   compiled (buildUpsert MySQL exampleBuilder
      \<lparr>conflictColumns = [''Id''],
       assigns = [AssignColumn (C ''Name''), AssignRaw (Raw ''now()'' [])]\<rparr>) =
     Inl ErrUnsupportedAssignableType"
  by (simp add: upsert_defs compiled_def C_def Raw_def builder_defs example_defs)

section \<open>The Deleter\<close>

text \<open>
  delete.go.  \<^verbatim>\<open>Deleter[T]\<close> has a buffer and an argument list of its own; \<^verbatim>\<open>d_T\<close> is
  \<^verbatim>\<open>reflect.TypeOf(t).Name()\<close> for the type parameter.
\<close>

record deleter =
  d_sb :: string
  d_where :: "binaryExpr list"
  d_table :: string
  d_args :: "val list option"
  d_T :: string

definition d_WriteString :: "deleter \<Rightarrow> string \<Rightarrow> deleter" where
  "d_WriteString d s = d\<lparr>d_sb := d_sb d @ s\<rparr>"

definition d_WriteByte :: "deleter \<Rightarrow> char \<Rightarrow> deleter" where
  "d_WriteByte d c = d\<lparr>d_sb := d_sb d @ [c]\<rparr>"

text \<open>\<^verbatim>\<open>Deleter.buildExpression\<close>: the cases \<^verbatim>\<open>Column\<close>, \<^verbatim>\<open>value\<close> and \<^verbatim>\<open>Predicate\<close>, and the
  \<^verbatim>\<open>default\<close> branch for every other type.\<close>

fun Deleter_buildExpression :: "deleter \<Rightarrow> expr \<Rightarrow> error + deleter" where
  "Deleter_buildExpression d ExprNil = Inr d"
| "Deleter_buildExpression d (ExprColumn exp) =
     Inr (d_WriteByte (d_WriteString (d_WriteByte d CHR 0x60) (c_name exp)) CHR 0x60)"
| "Deleter_buildExpression d (ExprValue v) =
     Inr ((d_WriteByte d CHR ''?'')\<lparr>d_args := Some (elems (d_args d) @ [v])\<rparr>)"
| "Deleter_buildExpression d (ExprPredicate (BinaryExpr l opr rt)) =
     (case Deleter_buildExpression d l of
        Inl err \<Rightarrow> Inl err
      | Inr d1 \<Rightarrow>
          Deleter_buildExpression
            (d_WriteString (d_WriteString (d_WriteString d1 '' '') opr) '' '') rt)"
| "Deleter_buildExpression d (ExprAggregate a) = Inl ErrDeleterUnsupportedExpression"
| "Deleter_buildExpression d (ExprRaw x) = Inl ErrDeleterUnsupportedExpression"
| "Deleter_buildExpression d (ExprMath m) = Inl ErrDeleterUnsupportedExpression"
| "Deleter_buildExpression d (ExprSubqueryExpr s pred) = Inl ErrDeleterUnsupportedExpression"
| "Deleter_buildExpression d (ExprSubquery s) = Inl ErrDeleterUnsupportedExpression"
| "Deleter_buildExpression d (ExprBinary n) = Inl ErrDeleterUnsupportedExpression"

text \<open>The loop over \<^verbatim>\<open>d.where\<close> in \<^verbatim>\<open>Build\<close>, with its index.\<close>

fun Deleter_where :: "deleter \<Rightarrow> nat \<Rightarrow> binaryExpr list \<Rightarrow> error + deleter" where
  "Deleter_where d i [] = Inr d"
| "Deleter_where d i (p # ps) =
     (let d1 = (if i > 0 then d_WriteString d '' AND '' else d)
      in case Deleter_buildExpression d1 (ExprPredicate p) of
           Inl err \<Rightarrow> Inl err
         | Inr d2 \<Rightarrow> Deleter_where d2 (i + 1) ps)"

definition Deleter_Build :: "deleter \<Rightarrow> error + query" where
  "Deleter_Build d =
     (let d1 = d_WriteString d ''DELETE FROM '';
          d2 = (if d_table d1 = []
                then d_WriteByte (d_WriteString (d_WriteByte d1 CHR 0x60) (d_T d1)) CHR 0x60
                else d_WriteString d1 (d_table d1))
      in case (if length (d_where d2) > 0
               then Deleter_where (d_WriteString d2 '' WHERE '') 0 (d_where d2)
               else Inr d2) of
           Inl err \<Rightarrow> Inl err
         | Inr d3 \<Rightarrow>
             (let d4 = d_WriteString d3 '';''
              in Inr \<lparr>SQL = d_sb d4, Args = d_args d4\<rparr>))"

definition NewDeleter :: "string \<Rightarrow> deleter" where
  "NewDeleter T = \<lparr>d_sb = [], d_where = [], d_table = [], d_args = None, d_T = T\<rparr>"

definition Deleter_From :: "deleter \<Rightarrow> string \<Rightarrow> deleter" where
  "Deleter_From d tbl = d\<lparr>d_table := tbl\<rparr>"

definition Deleter_Where :: "deleter \<Rightarrow> binaryExpr list \<Rightarrow> deleter" where
  "Deleter_Where d ps = d\<lparr>d_where := ps\<rparr>"

text \<open>
  What the Deleter writes for an expression, in the claim's words: a column is its quoted
  name, a value is a placeholder, a predicate is its left operand, a space, the operator,
  a space and its right operand, with no parentheses; any other variant has no
  compiled form.  \<^verbatim>\<open>where_values\<close> are the values bound on the way.
\<close>

fun where_text :: "expr \<Rightarrow> string option" where
  "where_text ExprNil = Some []"
| "where_text (ExprColumn c) = Some ([CHR 0x60] @ c_name c @ [CHR 0x60])"
| "where_text (ExprValue v) = Some ''?''"
| "where_text (ExprPredicate (BinaryExpr l opr rt)) =
     (case where_text l of
        None \<Rightarrow> None
      | Some t1 \<Rightarrow>
          (case where_text rt of
             None \<Rightarrow> None
           | Some t2 \<Rightarrow> Some (t1 @ '' '' @ opr @ '' '' @ t2)))"
| "where_text e = None"

fun where_values :: "expr \<Rightarrow> val list" where
  "where_values (ExprValue v) = [v]"
| "where_values (ExprPredicate (BinaryExpr l opr rt)) = where_values l @ where_values rt"
| "where_values e = []"

fun strings_Join :: "string list \<Rightarrow> string \<Rightarrow> string" where
  "strings_Join [] sep = []"
| "strings_Join [x] sep = x"
| "strings_Join (x # y # ys) sep = x @ sep @ strings_Join (y # ys) sep"

definition add_values :: "val list option \<Rightarrow> val list \<Rightarrow> val list option" where
  "add_values a vs = (if vs = [] then a else Some (elems a @ vs))"

lemma add_values_Nil [simp]: "add_values a [] = a"
  by (simp add: add_values_def)

lemma add_values_add_values: "add_values (add_values a xs) ys = add_values a (xs @ ys)"
  by (simp add: add_values_def)

lemma Deleter_buildExpression_text:
  "Deleter_buildExpression d e =
     (case where_text e of
        None \<Rightarrow> Inl ErrDeleterUnsupportedExpression
      | Some t \<Rightarrow> Inr (d\<lparr>d_sb := d_sb d @ t, d_args := add_values (d_args d) (where_values e)\<rparr>))"
proof (induction d e rule: Deleter_buildExpression.induct)
  case (4 d l opr rt)
  show ?case
  proof (cases "where_text l")
    case None
    then show ?thesis using 4(1) by simp
  next
    case (Some t1)
    then show ?thesis
      using 4(1) 4(2)[of "d\<lparr>d_sb := d_sb d @ t1, d_args := add_values (d_args d) (where_values l)\<rparr>"]
      by (cases "where_text rt")
         (simp_all add: d_WriteString_def add_values_add_values)
  qed
qed (simp_all add: d_WriteString_def d_WriteByte_def add_values_def)

lemma Deleter_where_step:
  assumes "where_text (ExprPredicate p) = Some t"
  shows "Deleter_where d i (p # ps) =
     Deleter_where
       (d\<lparr>d_sb := d_sb d @ (if i > 0 then '' AND '' else []) @ t,
          d_args := add_values (d_args d) (where_values (ExprPredicate p))\<rparr>)
       (i + 1) ps"
  by (simp add: Deleter_buildExpression_text assms d_WriteString_def
       del: Deleter_buildExpression.simps)

lemma Deleter_where_rest:
  assumes "\<forall>p \<in> set ps. where_text (ExprPredicate p) \<noteq> None" and "i > 0"
  shows "Deleter_where d i ps =
     Inr (d\<lparr>d_sb := d_sb d
                  @ concat (map (\<lambda>p. '' AND '' @ the (where_text (ExprPredicate p))) ps),
            d_args := add_values (d_args d)
                        (concat (map (\<lambda>p. where_values (ExprPredicate p)) ps))\<rparr>)"
  using assms
proof (induction ps arbitrary: d i)
  case Nil
  then show ?case by simp
next
  case (Cons p ps)
  obtain t where t: "where_text (ExprPredicate p) = Some t"
    using Cons.prems by auto
  have rest: "\<forall>p \<in> set ps. where_text (ExprPredicate p) \<noteq> None"
    using Cons.prems by simp
  show ?case
    unfolding Deleter_where_step[OF t]
    by (subst Cons.IH[OF rest]) (use Cons.prems t in \<open>simp_all add: add_values_add_values\<close>)
qed

lemma strings_Join_Cons: "strings_Join (x # xs) sep = x @ concat (map (\<lambda>y. sep @ y) xs)"
  by (induction xs arbitrary: x) simp_all

lemma Deleter_where_text:
  assumes "\<forall>p \<in> set ps. where_text (ExprPredicate p) \<noteq> None"
  shows "Deleter_where d 0 ps =
     Inr (d\<lparr>d_sb := d_sb d
                  @ strings_Join (map (\<lambda>p. the (where_text (ExprPredicate p))) ps) '' AND '',
            d_args := add_values (d_args d)
                        (concat (map (\<lambda>p. where_values (ExprPredicate p)) ps))\<rparr>)"
proof (cases ps)
  case Nil
  then show ?thesis by simp
next
  case (Cons p qs)
  obtain t where t: "where_text (ExprPredicate p) = Some t"
    using assms Cons by auto
  have rest: "\<forall>p \<in> set qs. where_text (ExprPredicate p) \<noteq> None"
    using assms Cons by simp
  show ?thesis
    unfolding Cons Deleter_where_step[OF t]
    by (subst Deleter_where_rest[OF rest])
       (simp_all add: t add_values_add_values strings_Join_Cons comp_def)
qed

lemma Deleter_where_unsupported:
  assumes "\<exists>p \<in> set ps. where_text (ExprPredicate p) = None"
  shows "Deleter_where d i ps = Inl ErrDeleterUnsupportedExpression"
  using assms
proof (induction ps arbitrary: d i)
  case Nil
  then show ?case by simp
next
  case (Cons p ps)
  show ?case
  proof (cases "where_text (ExprPredicate p)")
    case None
    then show ?thesis
      by (simp add: Deleter_buildExpression_text del: Deleter_buildExpression.simps)
  next
    case (Some t)
    then have "\<exists>p \<in> set ps. where_text (ExprPredicate p) = None"
      using Cons.prems by auto
    then show ?thesis
      using Cons.IH Some
      by (simp add: Deleter_buildExpression_text del: Deleter_buildExpression.simps)
  qed
qed


lemma Deleter_Build_text:
  assumes "d_where d \<noteq> []"
  shows "Deleter_Build d =
     (if \<forall>p \<in> set (d_where d). where_text (ExprPredicate p) \<noteq> None
      then Inr \<lparr>SQL = d_sb d @ ''DELETE FROM ''
                    @ (if d_table d = [] then [CHR 0x60] @ d_T d @ [CHR 0x60] else d_table d)
                    @ '' WHERE ''
                    @ strings_Join (map (\<lambda>p. the (where_text (ExprPredicate p))) (d_where d))
                        '' AND ''
                    @ '';'',
                Args = add_values (d_args d)
                         (concat (map (\<lambda>p. where_values (ExprPredicate p)) (d_where d)))\<rparr>
      else Inl ErrDeleterUnsupportedExpression)"
proof (cases "\<forall>p \<in> set (d_where d). where_text (ExprPredicate p) \<noteq> None")
  case True
  show ?thesis
    using assms True
    by (simp add: Deleter_Build_def Let_def d_WriteString_def d_WriteByte_def
          Deleter_where_text[OF True])
next
  case False
  then have "\<exists>p \<in> set (d_where d). where_text (ExprPredicate p) = None" by simp
  then show ?thesis
    using assms False
    by (simp add: Deleter_Build_def Let_def d_WriteString_def d_WriteByte_def
          Deleter_where_unsupported)
qed

text \<open>
  C10.  For a Deleter with two or more \<^verbatim>\<open>WHERE\<close> predicates, \<^verbatim>\<open>Build\<close> succeeds exactly when
  every predicate is made of columns, values and predicates only, and then its text is
  \<^verbatim>\<open>DELETE FROM\<close>, the table, \<^verbatim>\<open>WHERE\<close>, the predicates' compiled forms joined by the
  separator \<^verbatim>\<open> AND \<close>, and \<^verbatim>\<open>;\<close>; otherwise it fails.  The compiled form of a predicate
  is its operands around the operator with no parentheses, also when an operand is a
  predicate; every other variant has none.  On \<^verbatim>\<open>age > 2\<close>, \<^verbatim>\<open>age < 7\<close> the Deleter writes
  \<^verbatim>\<open>`age` > ? AND `age` < ?\<close> where the main compiler's \<^verbatim>\<open>buildPredicates\<close> writes
  \<^verbatim>\<open>(`age` > ?) AND (`age` < ?)\<close>.
\<close>

theorem Deleter_Build_joins_with_AND:
  assumes "2 \<le> length (d_where d)"
  shows
    "Deleter_Build d =
       (if \<forall>p \<in> set (d_where d). where_text (ExprPredicate p) \<noteq> None
        then Inr \<lparr>SQL = d_sb d @ ''DELETE FROM ''
                      @ (if d_table d = [] then [CHR 0x60] @ d_T d @ [CHR 0x60] else d_table d)
                      @ '' WHERE ''
                      @ strings_Join (map (\<lambda>p. the (where_text (ExprPredicate p))) (d_where d))
                          '' AND ''
                      @ '';'',
                  Args = add_values (d_args d)
                           (concat (map (\<lambda>p. where_values (ExprPredicate p)) (d_where d)))\<rparr>
        else Inl ErrDeleterUnsupportedExpression) \<and>
     Deleter_buildExpression d0 e =
       (case where_text e of
          None \<Rightarrow> Inl ErrDeleterUnsupportedExpression
        | Some t \<Rightarrow>
            Inr (d0\<lparr>d_sb := d_sb d0 @ t, d_args := add_values (d_args d0) (where_values e)\<rparr>)) \<and>
     where_text (ExprPredicate (BinaryExpr (ExprPredicate p) opr (ExprPredicate q))) =
       (case where_text (ExprPredicate p) of
          None \<Rightarrow> None
        | Some t1 \<Rightarrow>
            (case where_text (ExprPredicate q) of
               None \<Rightarrow> None
             | Some t2 \<Rightarrow> Some (t1 @ '' '' @ opr @ '' '' @ t2))) \<and>
     where_text (ExprAggregate a) = None \<and> where_text (ExprRaw x) = None \<and>
     where_text (ExprMath m) = None \<and> where_text (ExprSubqueryExpr s pred) = None \<and>
     where_text (ExprSubquery s) = None \<and> where_text (ExprBinary m) = None \<and>
     Deleter_Build (Deleter_Where (NewDeleter ''TestModel'')
        [GT (C ''age'') (AnyVal (VInt 2)), LT (C ''age'') (AnyVal (VInt 7))]) =
       Inr \<lparr>SQL = ''DELETE FROM '' @ [CHR 0x60] @ ''TestModel'' @ [CHR 0x60] @ '' WHERE ''
                 @ [CHR 0x60] @ ''age'' @ [CHR 0x60] @ '' > ? AND ''
                 @ [CHR 0x60] @ ''age'' @ [CHR 0x60] @ '' < ?;'',
             Args = Some [VInt 2, VInt 7]\<rparr> \<and>
     compiled (buildPredicates (exampleBuilder\<lparr>model := testModel\<rparr>)
        [GT (C ''age'') (AnyVal (VInt 2)), LT (C ''age'') (AnyVal (VInt 7))]) =
       Inr (''('' @ [CHR 0x60] @ ''age'' @ [CHR 0x60] @ '' > ?) AND (''
              @ [CHR 0x60] @ ''age'' @ [CHR 0x60] @ '' < ?)'', [VInt 2, VInt 7])"
proof -
  have ne: "d_where d \<noteq> []" using assms by auto
  have ex1: "Deleter_Build (Deleter_Where (NewDeleter ''TestModel'')
        [GT (C ''age'') (AnyVal (VInt 2)), LT (C ''age'') (AnyVal (VInt 7))]) =
       Inr \<lparr>SQL = ''DELETE FROM '' @ [CHR 0x60] @ ''TestModel'' @ [CHR 0x60] @ '' WHERE ''
                 @ [CHR 0x60] @ ''age'' @ [CHR 0x60] @ '' > ? AND ''
                 @ [CHR 0x60] @ ''age'' @ [CHR 0x60] @ '' < ?;'',
             Args = Some [VInt 2, VInt 7]\<rparr>"
    by (simp add: Deleter_Build_def Deleter_Where_def NewDeleter_def GT_def LT_def C_def
          opGT_def opLT_def d_WriteString_def d_WriteByte_def Let_def)
  have ex2: "compiled (buildPredicates (exampleBuilder\<lparr>model := testModel\<rparr>)
        [GT (C ''age'') (AnyVal (VInt 2)), LT (C ''age'') (AnyVal (VInt 7))]) =
       Inr (''('' @ [CHR 0x60] @ ''age'' @ [CHR 0x60] @ '' > ?) AND (''
              @ [CHR 0x60] @ ''age'' @ [CHR 0x60] @ '' < ?)'', [VInt 2, VInt 7])"
    by (simp add: compiled_def GT_def LT_def And_def C_def opGT_def opLT_def opAND_def
          builder_defs testModel_def exampleBuilder_def dialect_quoter_def)
  show ?thesis
    by (simp only: Deleter_Build_text[OF ne] Deleter_buildExpression_text ex1 ex2)
       (simp split: option.splits)
qed

theorem Deleter_Build_joins_with_AND_witness:
  "2 \<le> length (d_where (Deleter_Where (Deleter_From (NewDeleter ''User'') ''users'')
        [EQ (C ''Id'') (AnyVal (VInt 1)), Not (GT (C ''Age'') (AnyVal (VInt 30))),
         LT (C ''Age'') (AnyVal (VInt 90))])) \<and>
   Deleter_Build (Deleter_Where (Deleter_From (NewDeleter ''User'') ''users'')
        [EQ (C ''Id'') (AnyVal (VInt 1)), Not (GT (C ''Age'') (AnyVal (VInt 30))),
         LT (C ''Age'') (AnyVal (VInt 90))]) =
     Inr \<lparr>SQL = ''DELETE FROM users WHERE '' @ [CHR 0x60] @ ''Id'' @ [CHR 0x60] @ '' = ? AND ''
               @ '' NOT '' @ [CHR 0x60] @ ''Age'' @ [CHR 0x60] @ '' > ? AND ''
               @ [CHR 0x60] @ ''Age'' @ [CHR 0x60] @ '' < ?;'',
           Args = Some [VInt 1, VInt 30, VInt 90]\<rparr>"
  using Deleter_Build_joins_with_AND[of "Deleter_Where (Deleter_From (NewDeleter ''User'') ''users'')
        [EQ (C ''Id'') (AnyVal (VInt 1)), Not (GT (C ''Age'') (AnyVal (VInt 30))),
         LT (C ''Age'') (AnyVal (VInt 90))]"]
  by (simp add: Deleter_Where_def Deleter_From_def NewDeleter_def EQ_def GT_def LT_def Not_def
        C_def opEQ_def opGT_def opLT_def opNOT_def add_values_def)

section \<open>The execution pipeline\<close>

text \<open>
  The database side of core.go.  A \<^verbatim>\<open>*sql.Rows\<close> cursor is the rows it will still deliver
  and the error, if any, that ends the iteration after them: \<^verbatim>\<open>Next\<close> moves to the next
  row and returns \<^verbatim>\<open>false\<close> when none is left, \<^verbatim>\<open>Err\<close> is then the iteration's error.
  A \<^verbatim>\<open>session\<close> is its two methods \<^verbatim>\<open>queryContext\<close> and \<^verbatim>\<open>execContext\<close>; the context argument
  is only passed on and is left out.
\<close>

type_synonym row = "val list"

record rows =
  upcoming :: "row list"
  current :: "row option"
  iter_err :: "error option"

definition rows_Next :: "rows \<Rightarrow> bool \<times> rows" where
  "rows_Next rs =
     (case upcoming rs of
        [] \<Rightarrow> (False, rs\<lparr>current := None\<rparr>)
      | x # xs \<Rightarrow> (True, rs\<lparr>upcoming := xs, current := Some x\<rparr>))"

definition rows_Err :: "rows \<Rightarrow> error option" where
  "rows_Err rs = (if upcoming rs = [] then iter_err rs else None)"

record sqlResult =
  lastInsertId :: int
  rowsAffected :: int

record session =
  queryContext :: "string \<Rightarrow> val list \<Rightarrow> error + rows"
  execContext :: "string \<Rightarrow> val list \<Rightarrow> error + sqlResult"

text \<open>
  \<^verbatim>\<open>QueryContext\<close> and \<^verbatim>\<open>QueryResult\<close> (core.go).  The \<^verbatim>\<open>Builder\<close> is a \<^verbatim>\<open>QueryBuilder\<close>,
  represented by what its \<^verbatim>\<open>Build()\<close> returns; \<^verbatim>\<open>Result any\<close> is \<^verbatim>\<open>nil\<close>, one record, a
  slice of records or a driver result.
\<close>

record queryContext =
  qc_Type :: string
  qc_Builder :: "error + query"
  qc_Model :: "model option"

datatype 't payload = Single 't | Multi "'t list" | Exec sqlResult

record 't queryResult =
  Result :: "'t payload option"
  Err :: "error option"

text \<open>
  A \<^verbatim>\<open>HandleFunc\<close> is a Go function and may have effects (a middleware that logs or
  times a call); they are made explicit as a state \<^verbatim>\<open>'s\<close> that every handler takes and
  returns.  A \<^verbatim>\<open>Middleware\<close> maps a handler to a handler.
\<close>

type_synonym ('t, 's) handleFunc = "queryContext \<Rightarrow> 's \<Rightarrow> 't queryResult \<times> 's"

type_synonym ('t, 's) middleware = "('t, 's) handleFunc \<Rightarrow> ('t, 's) handleFunc"

text \<open>
  \<^verbatim>\<open>core\<close>.  The package \<^verbatim>\<open>internal/valuer\<close> is not among the sources: \<^verbatim>\<open>valCreator c meta rs\<close>
  stands for \<^verbatim>\<open>c.valCreator(tp, meta).SetColumns(rows)\<close> on a new record \<^verbatim>\<open>tp\<close>, and gives
  the record as \<^verbatim>\<open>SetColumns\<close> leaves it and the error \<^verbatim>\<open>SetColumns\<close> returns.
\<close>

record ('t, 's) core =
  c_r_Get :: "entity \<Rightarrow> error + model"
  c_dialect :: dialect
  valCreator :: "model \<Rightarrow> rows \<Rightarrow> 't \<times> error option"
  ms :: "('t, 's) middleware list"

text \<open>\<^verbatim>\<open>getHandler[T]\<close>; \<^verbatim>\<open>T\<close> is passed as the entity \<^verbatim>\<open>new(T)\<close> is looked up by.\<close>

definition getHandler ::
  "entity \<Rightarrow> session \<Rightarrow> ('t, 's) core \<Rightarrow> queryContext \<Rightarrow> 't queryResult" where
  "getHandler T sess c qc =
     (case qc_Builder qc of
        Inl err \<Rightarrow> \<lparr>Result = None, Err = Some err\<rparr>
      | Inr q \<Rightarrow>
          (case queryContext sess (SQL q) (elems (Args q)) of
             Inl err \<Rightarrow> \<lparr>Result = None, Err = Some err\<rparr>
           | Inr rs \<Rightarrow>
               (case rows_Next rs of
                  (False, rs1) \<Rightarrow> \<lparr>Result = None, Err = Some ErrNoRows\<rparr>
                | (True, rs1) \<Rightarrow>
                    (case c_r_Get c T of
                       Inl err \<Rightarrow> \<lparr>Result = None, Err = Some err\<rparr>
                     | Inr meta \<Rightarrow>
                         (case valCreator c meta rs1 of
                            (tp, err) \<Rightarrow> \<lparr>Result = Some (Single tp), Err = err\<rparr>)))))"

lemma rows_Next_shorter:
  "rows_Next rs = (True, rs1) \<Longrightarrow> length (upcoming rs1) < length (upcoming rs)"
  by (cases "upcoming rs") (auto simp: rows_Next_def)

text \<open>The loop \<^verbatim>\<open>for rows.Next()\<close> of \<^verbatim>\<open>getMultiHandler[T]\<close>: it returns the error it stops
  on or the records, and the cursor where it stopped.\<close>

function getMulti_rows ::
  "entity \<Rightarrow> ('t, 's) core \<Rightarrow> rows \<Rightarrow> 't list \<Rightarrow> (error + 't list) \<times> rows" where
  "getMulti_rows T c rs results =
     (case rows_Next rs of
        (False, rs1) \<Rightarrow> (Inr results, rs1)
      | (True, rs1) \<Rightarrow>
          (case c_r_Get c T of
             Inl err \<Rightarrow> (Inl err, rs1)
           | Inr meta \<Rightarrow>
               (case valCreator c meta rs1 of
                  (tp, Some err) \<Rightarrow> (Inl err, rs1)
                | (tp, None) \<Rightarrow> getMulti_rows T c rs1 (results @ [tp]))))"
  by pat_completeness auto

termination
  by (relation "measure (\<lambda>(T, c, rs, results). length (upcoming rs))")
     (auto dest: rows_Next_shorter sym)

declare getMulti_rows.simps [simp del]

definition getMultiHandler ::
  "entity \<Rightarrow> session \<Rightarrow> ('t, 's) core \<Rightarrow> queryContext \<Rightarrow> 't queryResult" where
  "getMultiHandler T sess c qc =
     (case qc_Builder qc of
        Inl err \<Rightarrow> \<lparr>Result = None, Err = Some err\<rparr>
      | Inr q \<Rightarrow>
          (case queryContext sess (SQL q) (elems (Args q)) of
             Inl err \<Rightarrow> \<lparr>Result = None, Err = Some err\<rparr>
           | Inr rs \<Rightarrow>
               (case getMulti_rows T c rs [] of
                  (Inl err, rs1) \<Rightarrow> \<lparr>Result = None, Err = Some err\<rparr>
                | (Inr results, rs1) \<Rightarrow>
                    (case rows_Err rs1 of
                       Some err \<Rightarrow> \<lparr>Result = None, Err = Some err\<rparr>
                     | None \<Rightarrow> \<lparr>Result = Some (Multi results), Err = None\<rparr>))))"

text \<open>The loop \<^verbatim>\<open>for i := len(ms) - 1; i >= 0; i-- { handler = ms[i](handler) }\<close> of
  \<^verbatim>\<open>get\<close>, \<^verbatim>\<open>getMulti\<close> and \<^verbatim>\<open>exec\<close>.\<close>

function wrap :: "('t, 's) middleware list \<Rightarrow> int \<Rightarrow> ('t, 's) handleFunc \<Rightarrow> ('t, 's) handleFunc" where
  "wrap mws i handler = (if i \<ge> 0 then wrap mws (i - 1) ((mws ! nat i) handler) else handler)"
  by pat_completeness auto

termination
  by (relation "measure (\<lambda>(mws, i, handler). nat (i + 1))") auto

declare wrap.simps [simp del]

definition get ::
  "entity \<Rightarrow> ('t, 's) core \<Rightarrow> session \<Rightarrow> queryContext \<Rightarrow> 's \<Rightarrow> 't queryResult \<times> 's" where
  "get T c sess qc =
     wrap (ms c) (int (length (ms c)) - 1) (\<lambda>qc s. (getHandler T sess c qc, s)) qc"

definition getMulti ::
  "entity \<Rightarrow> ('t, 's) core \<Rightarrow> session \<Rightarrow> queryContext \<Rightarrow> 's \<Rightarrow> 't queryResult \<times> 's" where
  "getMulti T c sess qc =
     wrap (ms c) (int (length (ms c)) - 1) (\<lambda>qc s. (getMultiHandler T sess c qc, s)) qc"

text \<open>\<^verbatim>\<open>exec\<close> and \<^verbatim>\<open>Result\<close> (result.go).  The type assertion \<^verbatim>\<open>qr.Result.(sql.Result)\<close>
  panics when a middleware hands back a result of another type.\<close>

record result =
  r_err :: "error option"
  r_res :: "sqlResult option"

definition execHandler :: "session \<Rightarrow> queryContext \<Rightarrow> 't queryResult" where
  "execHandler sess qc =
     (case qc_Builder qc of
        Inl err \<Rightarrow> \<lparr>Result = None, Err = Some err\<rparr>
      | Inr q \<Rightarrow>
          (case execContext sess (SQL q) (elems (Args q)) of
             Inl err \<Rightarrow> \<lparr>Result = None, Err = Some err\<rparr>
           | Inr res \<Rightarrow> \<lparr>Result = Some (Exec res), Err = None\<rparr>))"

definition exec ::
  "session \<Rightarrow> ('t, 's) core \<Rightarrow> queryContext \<Rightarrow> 's \<Rightarrow> (error + result) \<times> 's" where
  "exec sess c qc s =
     (case wrap (ms c) (int (length (ms c)) - 1) (\<lambda>qc s. (execHandler sess qc, s)) qc s of
        (qr, s1) \<Rightarrow>
          (case Result qr of
             None \<Rightarrow> (Inr \<lparr>r_err = Err qr, r_res = None\<rparr>, s1)
           | Some (Exec res) \<Rightarrow> (Inr \<lparr>r_err = Err qr, r_res = Some res\<rparr>, s1)
           | Some (Single x) \<Rightarrow> (Inl Panic, s1)
           | Some (Multi xs) \<Rightarrow> (Inl Panic, s1)))"

text \<open>A middleware that records when the call enters and when it leaves it.\<close>

datatype 'a event = Enter 'a | Exit 'a

definition tracing :: "'a \<Rightarrow> ('t, 'a event list) middleware" where
  "tracing a next =
     (\<lambda>qc tr. case next qc (tr @ [Enter a]) of (res, tr1) \<Rightarrow> (res, tr1 @ [Exit a]))"

lemma wrap_take:
  "i \<le> length mws \<Longrightarrow> wrap mws (int i - 1) h = foldr (\<lambda>m h. m h) (take i mws) h"
proof (induction i arbitrary: h)
  case 0
  show ?case by (subst wrap.simps) simp
next
  case (Suc i)
  have "wrap mws (int (Suc i) - 1) h = wrap mws (int i - 1) ((mws ! i) h)"
    by (subst wrap.simps) simp
  also have "\<dots> = foldr (\<lambda>m h. m h) (take i mws) ((mws ! i) h)"
    using Suc by simp
  also have "\<dots> = foldr (\<lambda>m h. m h) (take (Suc i) mws) h"
    using Suc.prems by (simp add: take_Suc_conv_app_nth)
  finally show ?case .
qed

lemma wrap_foldr: "wrap mws (int (length mws) - 1) h = foldr (\<lambda>m h. m h) mws h"
  using wrap_take[of "length mws" mws h] by simp

lemma tracing_chain:
  assumes "\<And>tr. h qc tr = (res, tr)"
  shows "foldr (\<lambda>m h. m h) (map tracing names) h qc tr =
     (res, tr @ map Enter names @ map Exit (rev names))"
proof (induction names arbitrary: tr)
  case Nil
  then show ?case by (simp add: assms)
next
  case (Cons a names)
  have "foldr (\<lambda>m h. m h) (map tracing (a # names)) h qc tr =
      tracing a (foldr (\<lambda>m h. m h) (map tracing names) h) qc tr"
    by simp
  also have "\<dots> = (res, tr @ map Enter (a # names) @ map Exit (rev (a # names)))"
    by (subst tracing_def) (simp add: Cons.IH)
  finally show ?case .
qed


text \<open>
  C6.  For every list of middleware, \<^verbatim>\<open>get\<close>, \<^verbatim>\<open>getMulti\<close> and \<^verbatim>\<open>exec\<close> run the handler
  \<^verbatim>\<open>m1 (m2 (... (mn inner)))\<close>: the loop wraps in reverse registration order and the
  first-registered middleware is outermost.  With middleware that record their entry and
  their exit, the record of one call is the entries in registration order followed by the
  exits in reverse registration order.
\<close>

theorem middleware_first_registered_outermost:
  "get T c sess = foldr (\<lambda>m h. m h) (ms c) (\<lambda>qc s. (getHandler T sess c qc, s)) \<and>
   getMulti T c sess = foldr (\<lambda>m h. m h) (ms c) (\<lambda>qc s. (getMultiHandler T sess c qc, s)) \<and>
   exec sess c qc s =
     (case foldr (\<lambda>m h. m h) (ms c) (\<lambda>qc s. (execHandler sess qc, s)) qc s of
        (qr, s1) \<Rightarrow>
          (case Result qr of
             None \<Rightarrow> (Inr \<lparr>r_err = Err qr, r_res = None\<rparr>, s1)
           | Some (Exec res) \<Rightarrow> (Inr \<lparr>r_err = Err qr, r_res = Some res\<rparr>, s1)
           | Some (Single x) \<Rightarrow> (Inl Panic, s1)
           | Some (Multi xs) \<Rightarrow> (Inl Panic, s1))) \<and>
   get T (ct\<lparr>ms := map tracing names\<rparr>) sess qc tr =
     (getHandler T sess (ct\<lparr>ms := map tracing names\<rparr>) qc,
      tr @ map Enter names @ map Exit (rev names)) \<and>
   getMulti T (ct\<lparr>ms := map tracing names\<rparr>) sess qc tr =
     (getMultiHandler T sess (ct\<lparr>ms := map tracing names\<rparr>) qc,
      tr @ map Enter names @ map Exit (rev names)) \<and>
   snd (exec sess (ct\<lparr>ms := map tracing names\<rparr>) qc tr) =
      tr @ map Enter names @ map Exit (rev names)"
proof -
  have g: "get T c sess = foldr (\<lambda>m h. m h) (ms c) (\<lambda>qc s. (getHandler T sess c qc, s))"
    by (rule ext) (simp add: get_def wrap_foldr)
  have gm: "getMulti T c sess =
      foldr (\<lambda>m h. m h) (ms c) (\<lambda>qc s. (getMultiHandler T sess c qc, s))"
    by (rule ext) (simp add: getMulti_def wrap_foldr)
  have e: "exec sess c qc s =
     (case foldr (\<lambda>m h. m h) (ms c) (\<lambda>qc s. (execHandler sess qc, s)) qc s of
        (qr, s1) \<Rightarrow>
          (case Result qr of
             None \<Rightarrow> (Inr \<lparr>r_err = Err qr, r_res = None\<rparr>, s1)
           | Some (Exec res) \<Rightarrow> (Inr \<lparr>r_err = Err qr, r_res = Some res\<rparr>, s1)
           | Some (Single x) \<Rightarrow> (Inl Panic, s1)
           | Some (Multi xs) \<Rightarrow> (Inl Panic, s1)))"
    by (simp add: exec_def wrap_foldr)
  have tg: "get T (ct\<lparr>ms := map tracing names\<rparr>) sess qc tr =
     (getHandler T sess (ct\<lparr>ms := map tracing names\<rparr>) qc,
      tr @ map Enter names @ map Exit (rev names))"
  proof -
    have "foldr (\<lambda>m h. m h) (map tracing names)
        (\<lambda>qc s. (getHandler T sess (ct\<lparr>ms := map tracing names\<rparr>) qc, s)) qc tr =
      (getHandler T sess (ct\<lparr>ms := map tracing names\<rparr>) qc,
       tr @ map Enter names @ map Exit (rev names))"
      by (rule tracing_chain) simp
    then show ?thesis
      unfolding get_def wrap_foldr by simp
  qed
  have tgm: "getMulti T (ct\<lparr>ms := map tracing names\<rparr>) sess qc tr =
     (getMultiHandler T sess (ct\<lparr>ms := map tracing names\<rparr>) qc,
      tr @ map Enter names @ map Exit (rev names))"
  proof -
    have "foldr (\<lambda>m h. m h) (map tracing names)
        (\<lambda>qc s. (getMultiHandler T sess (ct\<lparr>ms := map tracing names\<rparr>) qc, s)) qc tr =
      (getMultiHandler T sess (ct\<lparr>ms := map tracing names\<rparr>) qc,
       tr @ map Enter names @ map Exit (rev names))"
      by (rule tracing_chain) simp
    then show ?thesis
      unfolding getMulti_def wrap_foldr by simp
  qed
  have te: "snd (exec sess (ct\<lparr>ms := map tracing names\<rparr>) qc tr) =
      tr @ map Enter names @ map Exit (rev names)"
  proof -
    have "foldr (\<lambda>m h. m h) (map tracing names)
        (\<lambda>qc s. (execHandler sess qc :: 'c queryResult, s)) qc tr =
      (execHandler sess qc, tr @ map Enter names @ map Exit (rev names))"
      by (rule tracing_chain) simp
    then have "wrap (ms (ct\<lparr>ms := map tracing names\<rparr>))
        (int (length (ms (ct\<lparr>ms := map tracing names\<rparr>))) - 1)
        (\<lambda>qc s. (execHandler sess qc :: 'c queryResult, s)) qc tr =
      (execHandler sess qc, tr @ map Enter names @ map Exit (rev names))"
      unfolding wrap_foldr by simp
    then show ?thesis
      unfolding exec_def
      by (cases "Result (execHandler sess qc :: 'c queryResult)")
         (simp_all split: payload.splits)
  qed
  show ?thesis
    using g gm e tg tgm te by blast
qed

theorem middleware_first_registered_outermost_witness:
  "snd (get ''User'' \<lparr>c_r_Get = exampleRegistry, c_dialect = MySQL,
           valCreator = (\<lambda>meta rs. (the (current rs), None)),
           ms = [tracing ''A'', tracing ''B'']\<rparr>
         \<lparr>queryContext = (\<lambda>q a. Inr \<lparr>upcoming = [[VInt 1]], current = None, iter_err = None\<rparr>),
          execContext = (\<lambda>q a. Inl (ErrDriver ''read only''))\<rparr>
         \<lparr>qc_Type = ''RAW'', qc_Builder = Inr \<lparr>SQL = ''SELECT 1;'', Args = None\<rparr>,
          qc_Model = None\<rparr> [])
     = [Enter ''A'', Enter ''B'', Exit ''B'', Exit ''A'']"
  using middleware_first_registered_outermost[where T="''User''" and ct=
      "\<lparr>c_r_Get = exampleRegistry, c_dialect = MySQL,
           valCreator = (\<lambda>meta rs. (the (current rs), None)), ms = []\<rparr>"
      and names="[''A'', ''B'']" and sess=
      "\<lparr>queryContext = (\<lambda>q a. Inr \<lparr>upcoming = [[VInt 1]], current = None, iter_err = None\<rparr>),
          execContext = (\<lambda>q a. Inl (ErrDriver ''read only''))\<rparr>"
      and qc="\<lparr>qc_Type = ''RAW'', qc_Builder = Inr \<lparr>SQL = ''SELECT 1;'', Args = None\<rparr>,
          qc_Model = None\<rparr>" and tr="[]" and s="[]" and c=
      "\<lparr>c_r_Get = exampleRegistry, c_dialect = MySQL,
           valCreator = (\<lambda>meta rs. (the (current rs), None)), ms = []\<rparr>",
      THEN conjunct2, THEN conjunct2, THEN conjunct2, THEN conjunct1]
  by simp








section \<open>The model registry\<close>

text \<open>
  A Go string is a sequence of bytes, and \<^verbatim>\<open>for i, v := range s\<close> decodes it as UTF-8: it
  yields each code point \<^verbatim>\<open>v\<close> with the byte offset \<^verbatim>\<open>i\<close> it starts at, and the code
  point U+FFFD, one byte wide, where the bytes are not valid UTF-8.
\<close>

type_synonym rune = nat

definition RuneError :: rune where
  "RuneError = 65533"

definition continuation :: "char \<Rightarrow> bool" where
  "continuation c = (128 \<le> (of_char c :: nat) \<and> (of_char c :: nat) \<le> 191)"

fun decodeRune :: "string \<Rightarrow> rune \<times> nat" where
  "decodeRune [] = (RuneError, 0)"
| "decodeRune (c0 # rest) =
     (let b0 = (of_char c0 :: nat)
      in if b0 < 128 then (b0, 1)
         else if 194 \<le> b0 \<and> b0 \<le> 223 then
           (case rest of
              c1 # _ \<Rightarrow>
                if continuation c1 then ((b0 - 192) * 64 + (of_char c1 - 128), 2)
                else (RuneError, 1)
            | _ \<Rightarrow> (RuneError, 1))
         else if 224 \<le> b0 \<and> b0 \<le> 239 then
           (case rest of
              c1 # c2 # _ \<Rightarrow>
                if (if b0 = 224 then 160 else 128) \<le> (of_char c1 :: nat)
                   \<and> (of_char c1 :: nat) \<le> (if b0 = 237 then 159 else 191)
                   \<and> continuation c2
                then (((b0 - 224) * 64 + (of_char c1 - 128)) * 64 + (of_char c2 - 128), 3)
                else (RuneError, 1)
            | _ \<Rightarrow> (RuneError, 1))
         else if 240 \<le> b0 \<and> b0 \<le> 244 then
           (case rest of
              c1 # c2 # c3 # _ \<Rightarrow>
                if (if b0 = 240 then 144 else 128) \<le> (of_char c1 :: nat)
                   \<and> (of_char c1 :: nat) \<le> (if b0 = 244 then 143 else 191)
                   \<and> continuation c2 \<and> continuation c3
                then ((((b0 - 240) * 64 + (of_char c1 - 128)) * 64 + (of_char c2 - 128)) * 64
                        + (of_char c3 - 128), 4)
                else (RuneError, 1)
            | _ \<Rightarrow> (RuneError, 1))
         else (RuneError, 1))"

lemma decodeRune_width: "s \<noteq> [] \<Longrightarrow> 1 \<le> snd (decodeRune s)"
  by (cases s) (auto simp: Let_def split: list.splits)

function range_string :: "nat \<Rightarrow> string \<Rightarrow> (nat \<times> rune) list" where
  "range_string i s =
     (if s = [] then []
      else (i, fst (decodeRune s)) # range_string (i + snd (decodeRune s)) (drop (snd (decodeRune s)) s))"
  by pat_completeness auto

termination
proof (relation "measure (\<lambda>(i, s). length s)")
  show "wf (measure (\<lambda>(i, s). length s))" by simp
next
  fix i :: nat and s :: string
  assume "s \<noteq> []"
  then have "1 \<le> snd (decodeRune s)" by (rule decodeRune_width)
  with \<open>s \<noteq> []\<close> show "((i + snd (decodeRune s), drop (snd (decodeRune s)) s), (i, s))
      \<in> measure (\<lambda>(i, s). length s)"
    by (cases s) auto
qed

declare range_string.simps [simp del]

text \<open>
  \<^verbatim>\<open>underscoreName\<close> (registry.go).  \<^verbatim>\<open>unicode.IsUpper\<close> and \<^verbatim>\<open>unicode.ToLower\<close> belong to
  Go's standard library; they are the parameters \<^verbatim>\<open>IsUpper\<close> and \<^verbatim>\<open>ToLower\<close>.  The
  conversion \<^verbatim>\<open>byte(v)\<close> of a rune keeps its low eight bits, as \<^verbatim>\<open>char_of\<close> does.
\<close>

fun underscoreName_loop ::
  "(rune \<Rightarrow> bool) \<Rightarrow> (rune \<Rightarrow> rune) \<Rightarrow> string \<Rightarrow> (nat \<times> rune) list \<Rightarrow> string" where
  "underscoreName_loop IsUpper ToLower buf [] = buf"
| "underscoreName_loop IsUpper ToLower buf ((i, v) # rest) =
     underscoreName_loop IsUpper ToLower
       (if IsUpper v
        then (if i \<noteq> 0 then buf @ ''_'' else buf) @ [char_of (ToLower v)]
        else buf @ [char_of v])
       rest"

definition underscoreName :: "(rune \<Rightarrow> bool) \<Rightarrow> (rune \<Rightarrow> rune) \<Rightarrow> string \<Rightarrow> string" where
  "underscoreName IsUpper ToLower tableName =
     underscoreName_loop IsUpper ToLower [] (range_string 0 tableName)"

text \<open>\<^verbatim>\<open>strings.Split\<close> with a one-byte separator, and \<^verbatim>\<open>parseTag\<close> on the value
  \<^verbatim>\<open>tag.Get("orm")\<close>.\<close>

fun strings_Split :: "string \<Rightarrow> char \<Rightarrow> string list" where
  "strings_Split [] sep = [[]]"
| "strings_Split (c # cs) sep =
     (if c = sep then [] # strings_Split cs sep
      else (case strings_Split cs sep of
              x # xs \<Rightarrow> (c # x) # xs
            | [] \<Rightarrow> [[c]]))"

definition tagKeyColumn :: string where
  "tagKeyColumn = ''column''"

fun parseTag_pairs :: "(string \<rightharpoonup> string) \<Rightarrow> string list \<Rightarrow> error + (string \<rightharpoonup> string)" where
  "parseTag_pairs res [] = Inr res"
| "parseTag_pairs res (pair # pairs) =
     (case strings_Split pair CHR ''='' of
        [k, v] \<Rightarrow> parseTag_pairs (res(k \<mapsto> v)) pairs
      | _ \<Rightarrow> Inl (ErrInvalidTagContent pair))"

definition parseTag :: "string \<Rightarrow> error + (string \<rightharpoonup> string)" where
  "parseTag ormTag =
     (if ormTag = [] then Inr Map.empty
      else parseTag_pairs Map.empty (strings_Split ormTag CHR '',''))"

text \<open>
  What reflection tells \<^verbatim>\<open>parseModel\<close> about its argument: the type is a struct, a pointer
  or something else; a struct has a name and fields, each with its name, its \<^verbatim>\<open>orm\<close> tag,
  its type and its offset; \<^verbatim>\<open>st_TableName\<close> is what the \<^verbatim>\<open>TableName()\<close> method of the value
  returns when it has one.
\<close>

record structField =
  f_Name :: string
  f_Tag :: string
  f_Type :: string
  f_Offset :: nat

record structType =
  st_Name :: string
  st_Fields :: "structField list"
  st_TableName :: "string option"

datatype rtype = TStruct structType | TPtr rtype | TOther

fun parseModel_fields ::
  "(rune \<Rightarrow> bool) \<Rightarrow> (rune \<Rightarrow> rune) \<Rightarrow> nat \<Rightarrow> (string \<rightharpoonup> field) \<Rightarrow> field list
     \<Rightarrow> (string \<rightharpoonup> field) \<Rightarrow> structField list
     \<Rightarrow> error + (string \<rightharpoonup> field) \<times> field list \<times> (string \<rightharpoonup> field)" where
  "parseModel_fields IsUpper ToLower i fieldMap flds colMap [] = Inr (fieldMap, flds, colMap)"
| "parseModel_fields IsUpper ToLower i fieldMap flds colMap (fdType # rest) =
     (case parseTag (f_Tag fdType) of
        Inl err \<Rightarrow> Inl err
      | Inr tags \<Rightarrow>
          (let colName0 = (case tags tagKeyColumn of None \<Rightarrow> [] | Some v \<Rightarrow> v);
               colName = (if colName0 = [] then underscoreName IsUpper ToLower (f_Name fdType)
                          else colName0);
               f = \<lparr>ColName = colName, GoName = f_Name fdType, Type = f_Type fdType,
                      Index = i, Offset = f_Offset fdType\<rparr>
           in parseModel_fields IsUpper ToLower (i + 1) (fieldMap(f_Name fdType \<mapsto> f))
                (flds @ [f]) (colMap(colName \<mapsto> f)) rest))"

definition parseModel :: "(rune \<Rightarrow> bool) \<Rightarrow> (rune \<Rightarrow> rune) \<Rightarrow> rtype \<Rightarrow> error + model" where
  "parseModel IsUpper ToLower typ =
     (case typ of
        TPtr (TStruct st) \<Rightarrow>
          (case parseModel_fields IsUpper ToLower 0 Map.empty [] Map.empty (st_Fields st) of
             Inl err \<Rightarrow> Inl err
           | Inr (fieldMap, flds, colMap) \<Rightarrow>
               (let tableName0 = (case st_TableName st of Some tn \<Rightarrow> tn | None \<Rightarrow> []);
                    tableName = (if tableName0 = [] then underscoreName IsUpper ToLower (st_Name st)
                                 else tableName0)
                in Inr \<lparr>TableName = tableName, Fields = flds, FieldMap = fieldMap,
                         ColumnMap = colMap\<rparr>))
      | _ \<Rightarrow> Inl ErrPointerOnly)"

text \<open>
  The conversion in the claim's words, on a name of ASCII letters: every upper-case letter
  is lower-cased, and preceded by an underscore unless it is the first character.
\<close>

definition upper_case :: "char \<Rightarrow> bool" where
  "upper_case c = (65 \<le> (of_char c :: nat) \<and> (of_char c :: nat) \<le> 90)"

definition lower_cased :: "char \<Rightarrow> char" where
  "lower_cased c = char_of ((of_char c :: nat) + 32)"

fun snake_case_from :: "bool \<Rightarrow> string \<Rightarrow> string" where
  "snake_case_from first [] = []"
| "snake_case_from first (c # cs) =
     (if upper_case c then (if first then [] else ''_'') @ [lower_cased c] else [c])
       @ snake_case_from False cs"

definition snake_case :: "string \<Rightarrow> string" where
  "snake_case name = snake_case_from True name"

text \<open>What is known of Go's \<^verbatim>\<open>unicode.IsUpper\<close> and \<^verbatim>\<open>unicode.ToLower\<close> on ASCII.\<close>

definition go_ascii :: "(rune \<Rightarrow> bool) \<Rightarrow> (rune \<Rightarrow> rune) \<Rightarrow> bool" where
  "go_ascii IsUpper ToLower =
     (\<forall>r < 128. IsUpper r = (65 \<le> r \<and> r \<le> 90) \<and> (IsUpper r \<longrightarrow> ToLower r = r + 32))"

definition ascii :: "string \<Rightarrow> bool" where
  "ascii s = (\<forall>c \<in> set s. (of_char c :: nat) < 128)"



text \<open>The column name a tag asks for: empty when the tag has no \<^verbatim>\<open>column\<close> key.\<close>

definition columnOverride :: "string \<Rightarrow> string" where
  "columnOverride ormTag =
     (case parseTag ormTag of
        Inl err \<Rightarrow> []
      | Inr tags \<Rightarrow> (case tags tagKeyColumn of None \<Rightarrow> [] | Some v \<Rightarrow> v))"

lemma range_string_ascii:
  "ascii s \<Longrightarrow> range_string i s = enumerate i (map of_char s)"
proof (induction s arbitrary: i)
  case Nil
  then show ?case by (subst range_string.simps) simp
next
  case (Cons c cs)
  then have c: "(of_char c :: nat) < 128" and cs: "ascii cs"
    by (simp_all add: ascii_def)
  have "range_string i (c # cs) = (i, of_char c) # range_string (Suc i) cs"
    using c by (subst range_string.simps) simp
  then show ?case
    using Cons.IH[OF cs, of "Suc i"] by simp
qed

lemma underscoreName_loop_ascii:
  assumes "go_ascii IsUpper ToLower"
  shows "ascii s \<Longrightarrow>
     underscoreName_loop IsUpper ToLower buf (enumerate i (map of_char s)) =
       buf @ snake_case_from (i = 0) s"
proof (induction s arbitrary: i buf)
  case Nil
  then show ?case by simp
next
  case (Cons c cs)
  then have c: "(of_char c :: nat) < 128" and cs: "ascii cs"
    by (simp_all add: ascii_def)
  have up: "IsUpper (of_char c) = upper_case c"
    using assms c by (simp add: go_ascii_def upper_case_def)
  have low: "upper_case c \<Longrightarrow> char_of (ToLower (of_char c)) = lower_cased c"
    using assms c up by (simp add: go_ascii_def lower_cased_def)
  show ?case
    using Cons.IH[OF cs, of _ "Suc i"] up low by simp
qed

lemma underscoreName_ascii:
  assumes "go_ascii IsUpper ToLower" and "ascii name"
  shows "underscoreName IsUpper ToLower name = snake_case name"
  using underscoreName_loop_ascii[OF assms, of "[]" 0]
  by (simp add: underscoreName_def snake_case_def range_string_ascii[OF assms(2)])

lemma parseModel_fields_columns:
  "parseModel_fields IsUpper ToLower i fm fs cm fds = Inr (fm', fs', cm') \<Longrightarrow>
     take (length fs) fs' = fs \<and> length fs' = length fs + length fds \<and>
     (\<forall>k < length fds. columnOverride (f_Tag (fds ! k)) = [] \<longrightarrow>
        ColName (fs' ! (length fs + k)) = underscoreName IsUpper ToLower (f_Name (fds ! k)) \<and>
        GoName (fs' ! (length fs + k)) = f_Name (fds ! k))"
proof (induction fds arbitrary: i fm fs cm)
  case Nil
  then show ?case by simp
next
  case (Cons fd fds)
  from Cons.prems obtain tags where tags: "parseTag (f_Tag fd) = Inr tags"
    by (cases "parseTag (f_Tag fd)") simp_all
  define colName where "colName =
     (if (case tags tagKeyColumn of None \<Rightarrow> [] | Some v \<Rightarrow> v) = []
      then underscoreName IsUpper ToLower (f_Name fd)
      else (case tags tagKeyColumn of None \<Rightarrow> [] | Some v \<Rightarrow> v))"
  define f where "f = \<lparr>ColName = colName, GoName = f_Name fd, Type = f_Type fd,
                      Index = i, Offset = f_Offset fd\<rparr>"
  have rec: "parseModel_fields IsUpper ToLower (i + 1) (fm(f_Name fd \<mapsto> f)) (fs @ [f])
      (cm(colName \<mapsto> f)) fds = Inr (fm', fs', cm')"
    using Cons.prems tags by (simp add: Let_def colName_def f_def)
  note ih = Cons.IH[OF rec]
  have pre: "take (Suc (length fs)) fs' = fs @ [f]" and len: "length fs' = Suc (length fs) + length fds"
    using ih by simp_all
  have here: "fs' ! length fs = f"
    using pre len by (metis lessI nth_append_length nth_take)
  have "take (length fs) (take (Suc (length fs)) fs') = take (length fs) fs'"
    by simp
  then have "take (length fs) fs' = fs"
    unfolding pre by simp
  moreover have "length fs' = length fs + length (fd # fds)"
    using len by simp
  moreover have "\<forall>k < length (fd # fds). columnOverride (f_Tag ((fd # fds) ! k)) = [] \<longrightarrow>
        ColName (fs' ! (length fs + k)) = underscoreName IsUpper ToLower (f_Name ((fd # fds) ! k)) \<and>
        GoName (fs' ! (length fs + k)) = f_Name ((fd # fds) ! k)"
  proof (intro allI impI)
    fix k
    assume k: "k < length (fd # fds)" and ov: "columnOverride (f_Tag ((fd # fds) ! k)) = []"
    show "ColName (fs' ! (length fs + k)) = underscoreName IsUpper ToLower (f_Name ((fd # fds) ! k)) \<and>
        GoName (fs' ! (length fs + k)) = f_Name ((fd # fds) ! k)"
    proof (cases k)
      case 0
      then show ?thesis
        using ov here tags by (simp add: f_def colName_def columnOverride_def)
    next
      case (Suc k')
      then show ?thesis
        using ih k ov by simp
    qed
  qed
  ultimately show ?case by blast
qed

text \<open>
  On names of ASCII characters the code does the conversion from camel case: when
  \<^verbatim>\<open>parseModel\<close> accepts a record type, a field whose tag has no \<^verbatim>\<open>column\<close> override and whose
  declared name is made of ASCII characters gets the column name that is its declared name
  with every upper-case letter lower-cased and, except at the first position, preceded by
  an underscore: \<^verbatim>\<open>FirstName\<close> becomes \<^verbatim>\<open>first_name\<close> and \<^verbatim>\<open>ID\<close> becomes \<^verbatim>\<open>i_d\<close>.
\<close>

lemma derived_column_name_on_ascii_names:
  assumes "go_ascii IsUpper ToLower"
    and "parseModel IsUpper ToLower (TPtr (TStruct st)) = Inr m"
    and "k < length (st_Fields st)"
    and "columnOverride (f_Tag (st_Fields st ! k)) = []"
    and "ascii (f_Name (st_Fields st ! k))"
  shows "ColName (Fields m ! k) = snake_case (f_Name (st_Fields st ! k)) \<and>
     GoName (Fields m ! k) = f_Name (st_Fields st ! k) \<and>
     snake_case ''FirstName'' = ''first_name'' \<and> snake_case ''ID'' = ''i_d''"
proof -
  from assms(2) obtain fm fs cm where
    pf: "parseModel_fields IsUpper ToLower 0 Map.empty [] Map.empty (st_Fields st) = Inr (fm, fs, cm)"
    and m: "Fields m = fs"
    by (auto simp: parseModel_def Let_def split: sum.splits prod.splits)
  from parseModel_fields_columns[OF pf] assms(3,4)
  have "ColName (fs ! k) = underscoreName IsUpper ToLower (f_Name (st_Fields st ! k))"
    and "GoName (fs ! k) = f_Name (st_Fields st ! k)"
    by simp_all
  moreover have "snake_case ''FirstName'' = ''first_name''"
    by code_simp
  moreover have "snake_case ''ID'' = ''i_d''"
    by code_simp
  ultimately show ?thesis
    using underscoreName_ascii[OF assms(1,5)] m by simp
qed

text \<open>A record type with no tags and a field named \<^verbatim>\<open>Caf\<close> followed by U+00E9, which UTF-8
  encodes as the bytes C3 A9; \<^verbatim>\<open>range\<close> yields the four code points of the name.\<close>

definition cafeType :: structType where
  "cafeType = \<lparr>st_Name = ''Menu'',
     st_Fields = [\<lparr>f_Name = [CHR ''C'', CHR ''a'', CHR ''f'', CHR 0xC3, CHR 0xA9], f_Tag = [],
                    f_Type = ''string'', f_Offset = 0\<rparr>],
     st_TableName = None\<rparr>"

lemma range_string_cafe:
  "range_string 0 [CHR ''C'', CHR ''a'', CHR ''f'', CHR 0xC3, CHR 0xA9] =
     [(0, 67), (1, 97), (2, 102), (3, 233)]"
  by code_simp

text \<open>
  C9.  The derived column name is not the declared name converted from camel case when
  the name has a character outside ASCII.  \<^verbatim>\<open>underscoreName\<close> ranges over the code points of
  the name and appends \<^verbatim>\<open>byte(v)\<close> for each code point \<^verbatim>\<open>v\<close>, which keeps the low eight bits:
  for the field \<^verbatim>\<open>Caf\<close> U+00E9 of a record type with no tags, and for every \<^verbatim>\<open>IsUpper\<close> and
  \<^verbatim>\<open>ToLower\<close> that, as Go's do, take \<^verbatim>\<open>C\<close> for an upper-case letter with lower case \<^verbatim>\<open>c\<close> and
  \<^verbatim>\<open>a\<close>, \<^verbatim>\<open>f\<close> and U+00E9 for no upper-case letters, \<^verbatim>\<open>parseModel\<close> gives the column name of
  the four bytes 63 61 66 E9.  It is not the declared name with its upper-case letter
  converted, whose last letter is the two bytes C3 A9.
\<close>

theorem derived_column_name_narrows_code_points:
  assumes "IsUpper 67" and "ToLower 67 = 99"
    and "\<not> IsUpper 97" and "\<not> IsUpper 102" and "\<not> IsUpper 233"
  shows "columnOverride (f_Tag (st_Fields cafeType ! 0)) = [] \<and>
     (case parseModel IsUpper ToLower (TPtr (TStruct cafeType)) of
        Inl err \<Rightarrow> False
      | Inr m \<Rightarrow>
          GoName (Fields m ! 0) = [CHR ''C'', CHR ''a'', CHR ''f'', CHR 0xC3, CHR 0xA9] \<and>
          ColName (Fields m ! 0) = [CHR ''c'', CHR ''a'', CHR ''f'', CHR 0xE9] \<and>
          snake_case (GoName (Fields m ! 0))
            = [CHR ''c'', CHR ''a'', CHR ''f'', CHR 0xC3, CHR 0xA9] \<and>
          ColName (Fields m ! 0) \<noteq> snake_case (GoName (Fields m ! 0)))"
proof -
  have u: "underscoreName IsUpper ToLower [CHR ''C'', CHR ''a'', CHR ''f'', CHR 0xC3, CHR 0xA9] =
      [char_of (99::nat), char_of (97::nat), char_of (102::nat), char_of (233::nat)]"
    using assms by (simp add: underscoreName_def range_string_cafe)
  have c: "[char_of (99::nat), char_of (97::nat), char_of (102::nat), char_of (233::nat)] =
      [CHR ''c'', CHR ''a'', CHR ''f'', CHR 0xE9]"
    by code_simp
  have s: "snake_case [CHR ''C'', CHR ''a'', CHR ''f'', CHR 0xC3, CHR 0xA9] =
      [CHR ''c'', CHR ''a'', CHR ''f'', CHR 0xC3, CHR 0xA9]"
    by code_simp
  have o: "columnOverride (f_Tag (st_Fields cafeType ! 0)) = []"
    by (simp add: cafeType_def columnOverride_def parseTag_def)
  have p: "parseModel IsUpper ToLower (TPtr (TStruct cafeType)) =
      Inr \<lparr>TableName = underscoreName IsUpper ToLower ''Menu'',
           Fields = [\<lparr>ColName = [CHR ''c'', CHR ''a'', CHR ''f'', CHR 0xE9],
                      GoName = [CHR ''C'', CHR ''a'', CHR ''f'', CHR 0xC3, CHR 0xA9],
                      Type = ''string'', Index = 0, Offset = 0\<rparr>],
           FieldMap = [[CHR ''C'', CHR ''a'', CHR ''f'', CHR 0xC3, CHR 0xA9] \<mapsto>
                      \<lparr>ColName = [CHR ''c'', CHR ''a'', CHR ''f'', CHR 0xE9],
                      GoName = [CHR ''C'', CHR ''a'', CHR ''f'', CHR 0xC3, CHR 0xA9],
                      Type = ''string'', Index = 0, Offset = 0\<rparr>],
           ColumnMap = [[CHR ''c'', CHR ''a'', CHR ''f'', CHR 0xE9] \<mapsto>
                      \<lparr>ColName = [CHR ''c'', CHR ''a'', CHR ''f'', CHR 0xE9],
                      GoName = [CHR ''C'', CHR ''a'', CHR ''f'', CHR 0xC3, CHR 0xA9],
                      Type = ''string'', Index = 0, Offset = 0\<rparr>]\<rparr>"
    by (simp add: parseModel_def cafeType_def parseTag_def Let_def tagKeyColumn_def u c)
  show ?thesis
    unfolding p using o s by simp
qed

text \<open>The hypotheses hold of the two functions that know the upper-case letters of ASCII
  only.\<close>

theorem derived_column_name_narrows_code_points_witness:
  "columnOverride (f_Tag (st_Fields cafeType ! 0)) = [] \<and>
     (case parseModel (\<lambda>r. 65 \<le> r \<and> r \<le> 90)
             (\<lambda>r. if 65 \<le> r \<and> r \<le> 90 then r + 32 else r) (TPtr (TStruct cafeType)) of
        Inl err \<Rightarrow> False
      | Inr m \<Rightarrow>
          GoName (Fields m ! 0) = [CHR ''C'', CHR ''a'', CHR ''f'', CHR 0xC3, CHR 0xA9] \<and>
          ColName (Fields m ! 0) = [CHR ''c'', CHR ''a'', CHR ''f'', CHR 0xE9] \<and>
          snake_case (GoName (Fields m ! 0))
            = [CHR ''c'', CHR ''a'', CHR ''f'', CHR 0xC3, CHR 0xA9] \<and>
          ColName (Fields m ! 0) \<noteq> snake_case (GoName (Fields m ! 0)))"
  by (rule derived_column_name_narrows_code_points) simp_all

section \<open>The Selector\<close>













section \<open>Placeholders and arguments\<close>

text \<open>
  The placeholders of a text are its \<^verbatim>\<open>?\<close> characters.  \<^verbatim>\<open>bal b\<close> is the number of
  placeholders in the builder's text less the number of its arguments.
\<close>

definition placeholders :: "string \<Rightarrow> nat" where
  "placeholders s = length (filter (\<lambda>c. c = CHR ''?'') s)"

definition qfree :: "string \<Rightarrow> bool" where
  "qfree s = (placeholders s = 0)"

definition bal :: "builder \<Rightarrow> int" where
  "bal b = int (placeholders (sb b)) - int (length (elems (args b)))"




definition wf_model :: "model \<Rightarrow> bool" where
  "wf_model m = (qfree (TableName m) \<and> (\<forall>fd f. FieldMap m fd = Some f \<longrightarrow> qfree (ColName f)))"

definition wf_registry :: "(entity \<Rightarrow> error + model) \<Rightarrow> bool" where
  "wf_registry r = (\<forall>e m. r e = Inr m \<longrightarrow> wf_model m)"

definition wf_env :: "builder \<Rightarrow> bool" where
  "wf_env b = (quoter b \<noteq> CHR ''?'' \<and> wf_model (model b) \<and> wf_registry (r_Get b))"


text \<open>A build keeps the balance and the environment of the builder.\<close>

definition keeps :: "builder \<Rightarrow> error + builder \<Rightarrow> bool" where
  "keeps b res =
     (case res of Inl err \<Rightarrow> True | Inr b' \<Rightarrow> bal b' = bal b \<and> fresh b' = fresh b)"

lemma keepsI: "bal b' = bal b \<Longrightarrow> fresh b' = fresh b \<Longrightarrow> keeps b (Inr b')"
  by (simp add: keeps_def)

lemma keeps_Inl [simp]: "keeps b (Inl err)"
  by (simp add: keeps_def)




lemma wf_env_fresh: "fresh b' = fresh b \<Longrightarrow> wf_env b' = wf_env b"
proof -
  assume a: "fresh b' = fresh b"
  have "quoter (fresh b') = quoter (fresh b)" "model (fresh b') = model (fresh b)"
    "r_Get (fresh b') = r_Get (fresh b)"
    using a by simp_all
  then show ?thesis by (simp add: wf_env_def)
qed

lemma placeholders_simps [simp]:
  "placeholders [] = 0"
  "placeholders (s @ t) = placeholders s + placeholders t"
  "placeholders (c # s) = (if c = CHR ''?'' then 1 else 0) + placeholders s"
  by (simp_all add: placeholders_def)








lemma qfree_Nil [simp]: "qfree []"
  by (simp add: qfree_def)




































section \<open>The Updater\<close>













section \<open>The Inserter\<close>











lemma wf_env_prims [simp]:
  "wf_env (WriteByte b c) = wf_env b" "wf_env (WriteString b t) = wf_env b"
  "wf_env (quote b n) = wf_env b" "wf_env (addArgs b as) = wf_env b"
  by (rule wf_env_fresh, simp)+












section \<open>Placeholders of the Deleter\<close>







section \<open>Example statements\<close>















end
